theory Spec2Isabelle
  imports Main
begin

section \<open>Data model of \<open>backend/server.py\<close>\<close>

text \<open>
  The pydantic models become records, their \<open>Literal[...]\<close> fields datatypes.
  Record fields carry a prefix because \<open>id\<close>, \<open>name\<close> and \<open>type\<close> are shared by
  several models. A \<open>datetime\<close> is an opaque instant; a fresh \<open>uuid.uuid4()\<close> and the
  reading of \<open>datetime.now(timezone.utc)\<close> are inputs of the function that asks for them.
\<close>

type_synonym datetime = nat

datatype sensor_type = Motion | Door | Window

datatype sensor_status = Active | Inactive | Triggered | Offline

datatype severity = Info | Warning | Danger

datatype mode = Armed | Disarmed | Monitoring

datatype event_type =
    Intrusion | EvArmed | EvDisarmed | MonitorStart | MonitorStop | SensorTriggered
  | SensorAdded | SensorRemoved | ZoneAdded | ZoneRemoved | SmsSent | System

record zone =
  z_id :: string
  z_name :: string
  z_description :: "string option"
  z_image_url :: "string option"
  z_created_at :: datetime

record sensor =
  s_id :: string
  s_name :: string
  s_type :: sensor_type
  s_zone_id :: string
  s_status :: sensor_status
  s_battery_level :: int
  s_last_triggered :: "datetime option"
  s_created_at :: datetime

record event =
  e_id :: string
  e_type :: event_type
  e_message :: string
  e_severity :: severity
  e_sensor_id :: "string option"
  e_zone_id :: "string option"
  e_timestamp :: datetime

record system_state_doc =
  ss_id :: string
  ss_mode :: mode
  ss_updated_at :: datetime

text \<open>
  A stored settings document may lack \<open>sms_enabled\<close> or \<open>alert_phone_number\<close>: the
  upsert of \<open>update_settings\<close> writes only the supplied fields. A missing key and an
  explicit null both read as \<open>None\<close> through \<open>dict.get\<close>.
\<close>

record settings_doc =
  st_id :: string
  st_sms_enabled :: "bool option"
  st_alert_phone_number :: "string option"
  st_updated_at :: datetime

record zone_update =
  zu_name :: "string option"
  zu_description :: "string option"
  zu_image_url :: "string option"

record sensor_update =
  su_name :: "string option"
  su_zone_id :: "string option"
  su_status :: "sensor_status option"
  su_battery_level :: "int option"

record settings_update =
  stu_sms_enabled :: "bool option"
  stu_alert_phone_number :: "string option"

text \<open>\<open>HTTPException(status_code, detail)\<close>.\<close>

datatype http_error = HTTPException nat string

text \<open>One call of \<open>twilio_client.messages.create(body, from_, to)\<close> and what it does.\<close>

record sms =
  sms_body :: string
  sms_from :: string
  sms_to :: string

datatype provider_result = Sent | Raised string

datatype log_level = INFO | ERROR

text \<open>
  The five collections of the document store, in insertion order, together with the two
  other things a request can write to: the SMS provider (\<open>twilio_calls\<close>, every call of
  \<open>messages.create\<close>) and the application logger (\<open>log_lines\<close>).
\<close>

record world =
  zones :: "zone list"
  sensors :: "sensor list"
  events :: "event list"
  system_state :: "system_state_doc list"
  settings :: "settings_doc list"
  twilio_calls :: "sms list"
  log_lines :: "(log_level \<times> string) list"

text \<open>
  The module-level Twilio globals. \<open>twilio_client\<close> is \<open>None\<close> when the credentials are
  missing or the client failed to initialise; otherwise it is the behaviour of its
  \<open>messages.create\<close>.
\<close>

record env =
  twilio_client :: "(sms \<Rightarrow> provider_result) option"
  twilio_phone_number :: "string option"

section \<open>Document store operations\<close>

definition find_one :: "('a \<Rightarrow> bool) \<Rightarrow> 'a list \<Rightarrow> 'a option" where
  "find_one p xs = List.find p xs"

definition insert_one :: "'a \<Rightarrow> 'a list \<Rightarrow> 'a list" where
  "insert_one d xs = xs @ [d]"

definition matched_count :: "('a \<Rightarrow> bool) \<Rightarrow> 'a list \<Rightarrow> nat" where
  "matched_count p xs = (if find_one p xs = None then 0 else 1)"

fun set_first :: "('a \<Rightarrow> bool) \<Rightarrow> ('a \<Rightarrow> 'a) \<Rightarrow> 'a list \<Rightarrow> 'a list" where
  "set_first p f [] = []"
| "set_first p f (x # xs) = (if p x then f x # xs else x # set_first p f xs)"

text \<open>\<open>update_one(filter, {"$set": ...})\<close>: the matched count and the collection afterwards.\<close>

definition update_one :: "('a \<Rightarrow> bool) \<Rightarrow> ('a \<Rightarrow> 'a) \<Rightarrow> 'a list \<Rightarrow> nat \<times> 'a list" where
  "update_one p f xs = (matched_count p xs, set_first p f xs)"

text \<open>
  With \<open>upsert=True\<close> a miss inserts the document made of the filter's fields
  (\<open>seed\<close>) with the \<open>$set\<close> applied.
\<close>

definition update_one_upsert :: "('a \<Rightarrow> bool) \<Rightarrow> ('a \<Rightarrow> 'a) \<Rightarrow> 'a \<Rightarrow> 'a list \<Rightarrow> 'a list" where
  "update_one_upsert p f seed xs =
     (if find_one p xs = None then insert_one (f seed) xs else set_first p f xs)"

fun delete_one :: "('a \<Rightarrow> bool) \<Rightarrow> 'a list \<Rightarrow> 'a list" where
  "delete_one p [] = []"
| "delete_one p (x # xs) = (if p x then xs else x # delete_one p xs)"

definition delete_many :: "('a \<Rightarrow> bool) \<Rightarrow> 'a list \<Rightarrow> 'a list" where
  "delete_many p xs = filter (\<lambda>x. \<not> p x) xs"

text \<open>
  The store encodes an integer in at most eight bytes: writing a document that holds an
  \<open>int\<close> outside the signed 64-bit range raises \<open>OverflowError\<close> before anything is
  sent, and the request ends as a server error with the store as it was.
\<close>

definition bson_int :: "int \<Rightarrow> bool" where
  "bson_int v = (- (2 ^ 63) \<le> v \<and> v < 2 ^ 63)"

section \<open>Helper functions\<close>

text \<open>\<open>log_event\<close>: \<open>stamp\<close> is the event's fresh id with its timestamp.\<close>

definition log_event ::
  "string \<times> datetime \<Rightarrow> event_type \<Rightarrow> string \<Rightarrow> severity \<Rightarrow> string option \<Rightarrow> string option
     \<Rightarrow> world \<Rightarrow> event \<times> world" where
  "log_event stamp event_type message sev sensor_id zone_id w =
     (let ev = \<lparr>e_id = fst stamp, e_type = event_type, e_message = message, e_severity = sev,
                e_sensor_id = sensor_id, e_zone_id = zone_id, e_timestamp = snd stamp\<rparr>
      in (ev, w\<lparr>events := insert_one ev (events w)\<rparr>))"

text \<open>Python truthiness of \<open>settings.get(...)\<close> and of an optional string.\<close>

definition truthy_bool :: "bool option \<Rightarrow> bool" where
  "truthy_bool b = (b = Some True)"

definition truthy_str :: "string option \<Rightarrow> bool" where
  "truthy_str s = (case s of None \<Rightarrow> False | Some v \<Rightarrow> v \<noteq> [])"

definition logger_write :: "log_level \<Rightarrow> string \<Rightarrow> world \<Rightarrow> world" where
  "logger_write lvl msg w = w\<lparr>log_lines := log_lines w @ [(lvl, msg)]\<rparr>"

definition send_sms_alert :: "env \<Rightarrow> string \<times> datetime \<Rightarrow> string \<Rightarrow> world \<Rightarrow> bool \<times> world" where
  "send_sms_alert cfg stamp message w =
     (case find_one (\<lambda>d. st_id d = ''settings'') (settings w) of
        None \<Rightarrow> (False, logger_write INFO ''SMS alerts disabled or no phone number configured'' w)
      | Some st \<Rightarrow>
          if \<not> truthy_bool (st_sms_enabled st) \<or> \<not> truthy_str (st_alert_phone_number st)
          then (False, logger_write INFO ''SMS alerts disabled or no phone number configured'' w)
          else (case twilio_client cfg of
             None \<Rightarrow> (False, logger_write ERROR ''Twilio not configured'' w)
           | Some create \<Rightarrow>
               if \<not> truthy_str (twilio_phone_number cfg)
               then (False, logger_write ERROR ''Twilio not configured'' w)
               else
                 (let to = the (st_alert_phone_number st);
                      m = \<lparr>sms_body = message, sms_from = the (twilio_phone_number cfg),
                           sms_to = to\<rparr>;
                      w1 = w\<lparr>twilio_calls := twilio_calls w @ [m]\<rparr>
                  in case create m of
                       Sent \<Rightarrow>
                         (let w2 = snd (log_event stamp SmsSent (''SMS alert sent: '' @ message)
                                          Info None None w1)
                          in (True, logger_write INFO (''SMS sent to '' @ to) w2))
                     | Raised e \<Rightarrow>
                         (False, logger_write ERROR (''Failed to send SMS: '' @ e) w1))))"

text \<open>\<open>get_system_state\<close>: \<open>now\<close> stamps the default document when none is stored.\<close>

definition get_system_state :: "datetime \<Rightarrow> world \<Rightarrow> system_state_doc \<times> world" where
  "get_system_state now w =
     (case find_one (\<lambda>d. ss_id d = ''system_state'') (system_state w) of
        None \<Rightarrow>
          (let default_state = \<lparr>ss_id = ''system_state'', ss_mode = Disarmed, ss_updated_at = now\<rparr>
           in (default_state, w\<lparr>system_state := insert_one default_state (system_state w)\<rparr>))
      | Some state \<Rightarrow> (state, w))"

section \<open>System state\<close>

text \<open>
  \<open>update_state\<close>: \<open>st_now\<close> is the clock reading used if the default state has to be
  created, \<open>upd_now\<close> the one stamped on the replacement document.
\<close>

definition update_state ::
  "datetime \<Rightarrow> datetime \<Rightarrow> string \<times> datetime \<Rightarrow> mode \<Rightarrow> world
     \<Rightarrow> (http_error + system_state_doc) \<times> world" where
  "update_state st_now upd_now ev_stamp new_mode w =
     (let (current_state, w1) = get_system_state st_now w;
          old_mode = ss_mode current_state;
          updated_state = \<lparr>ss_id = ''system_state'', ss_mode = new_mode, ss_updated_at = upd_now\<rparr>;
          w2 = w1\<lparr>system_state :=
                     update_one_upsert (\<lambda>d. ss_id d = ''system_state'') (\<lambda>_. updated_state)
                       updated_state (system_state w1)\<rparr>;
          w3 = (if old_mode \<noteq> new_mode then
                  (case new_mode of
                     Armed \<Rightarrow> snd (log_event ev_stamp EvArmed ''System armed'' Warning None None w2)
                   | Disarmed \<Rightarrow>
                       snd (log_event ev_stamp EvDisarmed ''System disarmed'' Info None None w2)
                   | Monitoring \<Rightarrow>
                       snd (log_event ev_stamp MonitorStart ''Monitoring mode enabled'' Info
                              None None w2))
                else w2)
      in (Inr updated_state, w3))"

section \<open>Zones\<close>

definition create_zone ::
  "string \<times> datetime \<Rightarrow> string \<times> datetime \<Rightarrow> string \<Rightarrow> string option \<Rightarrow> string option \<Rightarrow> world
     \<Rightarrow> (http_error + zone) \<times> world" where
  "create_zone z_stamp ev_stamp name description image_url w =
     (let z = \<lparr>z_id = fst z_stamp, z_name = name, z_description = description,
               z_image_url = image_url, z_created_at = snd z_stamp\<rparr>;
          w1 = w\<lparr>zones := insert_one z (zones w)\<rparr>;
          w2 = snd (log_event ev_stamp ZoneAdded (''Zone '' @ [CHR 0x27] @ name @ [CHR 0x27] @ '' added'')
                      Info None (Some (z_id z)) w1)
      in (Inr z, w2))"

text \<open>The entries of \<open>update_data\<close>: the non-null fields of the payload, in field order.\<close>

datatype zone_field = ZName string | ZDescription string | ZImageUrl string

definition zone_update_data :: "zone_update \<Rightarrow> zone_field list" where
  "zone_update_data u =
     (case zu_name u of None \<Rightarrow> [] | Some v \<Rightarrow> [ZName v]) @
     (case zu_description u of None \<Rightarrow> [] | Some v \<Rightarrow> [ZDescription v]) @
     (case zu_image_url u of None \<Rightarrow> [] | Some v \<Rightarrow> [ZImageUrl v])"

fun set_zone_field :: "zone_field \<Rightarrow> zone \<Rightarrow> zone" where
  "set_zone_field (ZName v) z = z\<lparr>z_name := v\<rparr>"
| "set_zone_field (ZDescription v) z = z\<lparr>z_description := Some v\<rparr>"
| "set_zone_field (ZImageUrl v) z = z\<lparr>z_image_url := Some v\<rparr>"

definition update_zone :: "string \<Rightarrow> zone_update \<Rightarrow> world \<Rightarrow> (http_error + zone) \<times> world" where
  "update_zone zone_id u w =
     (let update_data = zone_update_data u in
      if update_data = [] then (Inl (HTTPException 400 ''No update data provided''), w)
      else
        (let (matched, zs) = update_one (\<lambda>z. z_id z = zone_id) (fold set_zone_field update_data)
                               (zones w);
             w1 = w\<lparr>zones := zs\<rparr>
         in if matched = 0 then (Inl (HTTPException 404 ''Zone not found''), w1)
            else (case find_one (\<lambda>z. z_id z = zone_id) (zones w1) of
                    None \<Rightarrow> (Inl (HTTPException 500 ''Internal Server Error''), w1)
                  | Some z \<Rightarrow> (Inr z, w1))))"

definition delete_zone :: "string \<times> datetime \<Rightarrow> string \<Rightarrow> world \<Rightarrow> (http_error + string) \<times> world" where
  "delete_zone ev_stamp zone_id w =
     (case find_one (\<lambda>z. z_id z = zone_id) (zones w) of
        None \<Rightarrow> (Inl (HTTPException 404 ''Zone not found''), w)
      | Some z \<Rightarrow>
          (let w1 = w\<lparr>sensors := delete_many (\<lambda>s. s_zone_id s = zone_id) (sensors w)\<rparr>;
               w2 = w1\<lparr>zones := delete_one (\<lambda>z. z_id z = zone_id) (zones w1)\<rparr>;
               w3 = snd (log_event ev_stamp ZoneRemoved
                           (''Zone '' @ [CHR 0x27] @ z_name z @ [CHR 0x27] @ '' removed'')
                           Info None (Some zone_id) w2)
           in (Inr ''Zone deleted'', w3)))"

section \<open>Sensors\<close>

definition type_str :: "sensor_type \<Rightarrow> string" where
  "type_str t = (case t of Motion \<Rightarrow> ''motion'' | Door \<Rightarrow> ''door'' | Window \<Rightarrow> ''window'')"

text \<open>
  \<open>SensorCreate.battery_level\<close> is optional with default 100 (the caller passes
  \<open>Some 100\<close> for an omitted field); an explicit null fails the validation of \<open>Sensor\<close>,
  whose field is a plain \<open>int\<close>, after the zone lookup. A level outside the 64-bit
  range makes \<open>insert_one\<close> raise: no sensor is stored and no event is logged.
\<close>

definition create_sensor ::
  "string \<times> datetime \<Rightarrow> string \<times> datetime \<Rightarrow> string \<Rightarrow> sensor_type \<Rightarrow> string \<Rightarrow> int option \<Rightarrow> world
     \<Rightarrow> (http_error + sensor) \<times> world" where
  "create_sensor s_stamp ev_stamp name ty zone_id battery_level w =
     (case find_one (\<lambda>z. z_id z = zone_id) (zones w) of
        None \<Rightarrow> (Inl (HTTPException 404 ''Zone not found''), w)
      | Some z \<Rightarrow>
          (case battery_level of
             None \<Rightarrow> (Inl (HTTPException 500 ''Internal Server Error''), w)
           | Some b \<Rightarrow>
               (let s = \<lparr>s_id = fst s_stamp, s_name = name, s_type = ty, s_zone_id = zone_id,
                         s_status = Inactive, s_battery_level = b, s_last_triggered = None,
                         s_created_at = snd s_stamp\<rparr>
                in if \<not> bson_int (s_battery_level s)
                   then (Inl (HTTPException 500 ''Internal Server Error''), w)
                   else
                     (let w1 = w\<lparr>sensors := insert_one s (sensors w)\<rparr>;
                          w2 = snd (log_event ev_stamp SensorAdded
                                      (''Sensor '' @ [CHR 0x27] @ name @ [CHR 0x27] @ '' (''
                                         @ type_str ty @ '') added to zone'')
                                      Info (Some (s_id s)) (Some zone_id) w1)
                      in (Inr s, w2)))))"

datatype sensor_field = SName string | SZoneId string | SStatus sensor_status | SBatteryLevel int

definition sensor_update_data :: "sensor_update \<Rightarrow> sensor_field list" where
  "sensor_update_data u =
     (case su_name u of None \<Rightarrow> [] | Some v \<Rightarrow> [SName v]) @
     (case su_zone_id u of None \<Rightarrow> [] | Some v \<Rightarrow> [SZoneId v]) @
     (case su_status u of None \<Rightarrow> [] | Some v \<Rightarrow> [SStatus v]) @
     (case su_battery_level u of None \<Rightarrow> [] | Some v \<Rightarrow> [SBatteryLevel v])"

fun set_sensor_field :: "sensor_field \<Rightarrow> sensor \<Rightarrow> sensor" where
  "set_sensor_field (SName v) s = s\<lparr>s_name := v\<rparr>"
| "set_sensor_field (SZoneId v) s = s\<lparr>s_zone_id := v\<rparr>"
| "set_sensor_field (SStatus v) s = s\<lparr>s_status := v\<rparr>"
| "set_sensor_field (SBatteryLevel v) s = s\<lparr>s_battery_level := v\<rparr>"

text \<open>
  Whether the store can encode an entry of \<open>update_data\<close>; \<open>update_one\<close> encodes the
  whole \<open>$set\<close> before it looks for the document.
\<close>

fun bson_field :: "sensor_field \<Rightarrow> bool" where
  "bson_field (SBatteryLevel v) = bson_int v"
| "bson_field _ = True"

definition update_sensor ::
  "string \<Rightarrow> sensor_update \<Rightarrow> world \<Rightarrow> (http_error + sensor) \<times> world" where
  "update_sensor sensor_id u w =
     (let update_data = sensor_update_data u in
      if update_data = [] then (Inl (HTTPException 400 ''No update data provided''), w)
      else if \<not> list_all bson_field update_data
      then (Inl (HTTPException 500 ''Internal Server Error''), w)
      else
        (let (matched, ss) = update_one (\<lambda>s. s_id s = sensor_id) (fold set_sensor_field update_data)
                               (sensors w);
             w1 = w\<lparr>sensors := ss\<rparr>
         in if matched = 0 then (Inl (HTTPException 404 ''Sensor not found''), w1)
            else (case find_one (\<lambda>s. s_id s = sensor_id) (sensors w1) of
                    None \<Rightarrow> (Inl (HTTPException 500 ''Internal Server Error''), w1)
                  | Some s \<Rightarrow> (Inr s, w1))))"

definition delete_sensor ::
  "string \<times> datetime \<Rightarrow> string \<Rightarrow> world \<Rightarrow> (http_error + string) \<times> world" where
  "delete_sensor ev_stamp sensor_id w =
     (case find_one (\<lambda>s. s_id s = sensor_id) (sensors w) of
        None \<Rightarrow> (Inl (HTTPException 404 ''Sensor not found''), w)
      | Some s \<Rightarrow>
          (let w1 = w\<lparr>sensors := delete_one (\<lambda>s. s_id s = sensor_id) (sensors w)\<rparr>;
               w2 = snd (log_event ev_stamp SensorRemoved
                           (''Sensor '' @ [CHR 0x27] @ s_name s @ [CHR 0x27] @ '' removed'')
                           Info (Some sensor_id) (Some (s_zone_id s)) w1)
           in (Inr ''Sensor deleted'', w2)))"

text \<open>\<open>str.capitalize\<close> on ASCII text: first character upper case, the others lower case.\<close>

definition upper_char :: "char \<Rightarrow> char" where
  "upper_char c = (let n = (of_char c :: nat) in if 97 \<le> n \<and> n \<le> 122 then char_of (n - 32) else c)"

definition lower_char :: "char \<Rightarrow> char" where
  "lower_char c = (let n = (of_char c :: nat) in if 65 \<le> n \<and> n \<le> 90 then char_of (n + 32) else c)"

definition capitalize :: "string \<Rightarrow> string" where
  "capitalize s = (case s of [] \<Rightarrow> [] | c # cs \<Rightarrow> upper_char c # map lower_char cs)"

text \<open>The UTF-8 bytes of U+1F6A8, the marker that opens the alert messages.\<close>

definition alert_marker :: string where
  "alert_marker = [CHR 0xF0, CHR 0x9F, CHR 0x9A, CHR 0xA8]"

text \<open>
  The locals \<open>zone_name\<close>, \<open>sensor_type_label\<close> and \<open>message\<close> of \<open>trigger_sensor\<close>.
\<close>

definition zone_name_of :: "sensor \<Rightarrow> world \<Rightarrow> string" where
  "zone_name_of sensor w =
     (case find_one (\<lambda>z. z_id z = s_zone_id sensor) (zones w) of
        None \<Rightarrow> ''Unknown Zone'' | Some z \<Rightarrow> z_name z)"

definition sensor_type_label :: "sensor \<Rightarrow> string" where
  "sensor_type_label sensor =
     (if s_type sensor = Motion then ''Motion detected''
      else capitalize (type_str (s_type sensor)) @ '' opened'')"

definition trigger_message :: "sensor \<Rightarrow> string \<Rightarrow> string" where
  "trigger_message sensor zone_name =
     sensor_type_label sensor @ '' - '' @ s_name sensor @ '' in '' @ zone_name"

record trigger_response =
  tr_alert :: bool
  tr_message :: string
  tr_severity :: severity

text \<open>
  \<open>trigger_sensor\<close>: \<open>now\<close> is the clock reading stamped on the sensor, \<open>st_now\<close> the
  one \<open>get_system_state\<close> would use, \<open>ev_stamp\<close> and \<open>sms_stamp\<close> the id and time of the
  trigger event and of the \<open>sms_sent\<close> event.
\<close>

definition trigger_sensor ::
  "env \<Rightarrow> datetime \<Rightarrow> datetime \<Rightarrow> string \<times> datetime \<Rightarrow> string \<times> datetime \<Rightarrow> string \<Rightarrow> world
     \<Rightarrow> (http_error + trigger_response) \<times> world" where
  "trigger_sensor cfg now st_now ev_stamp sms_stamp sensor_id w =
     (case find_one (\<lambda>s. s_id s = sensor_id) (sensors w) of
        None \<Rightarrow> (Inl (HTTPException 404 ''Sensor not found''), w)
      | Some sensor \<Rightarrow>
          (let zone_name = zone_name_of sensor w;
               w1 = w\<lparr>sensors :=
                          snd (update_one (\<lambda>s. s_id s = sensor_id)
                                 (\<lambda>s. s\<lparr>s_status := Triggered, s_last_triggered := Some now\<rparr>)
                                 (sensors w))\<rparr>;
               (state, w2) = get_system_state st_now w1;
               message = trigger_message sensor zone_name
           in if ss_mode state = Armed then
                (let w3 = snd (log_event ev_stamp Intrusion
                                 (alert_marker @ '' INTRUSION DETECTED: '' @ message) Danger
                                 (Some sensor_id) (Some (s_zone_id sensor)) w2);
                     w4 = snd (send_sms_alert cfg sms_stamp
                                 (alert_marker @ '' SECURITY ALERT: '' @ message) w3)
                 in (Inr \<lparr>tr_alert = True, tr_message = ''INTRUSION: '' @ message,
                          tr_severity = Danger\<rparr>, w4))
              else if ss_mode state = Monitoring then
                (let w3 = snd (log_event ev_stamp SensorTriggered
                                 (''Movement detected: '' @ message) Warning
                                 (Some sensor_id) (Some (s_zone_id sensor)) w2)
                 in (Inr \<lparr>tr_alert = False, tr_message = ''Movement logged: '' @ message,
                          tr_severity = Warning\<rparr>, w3))
              else
                (let w3 = snd (log_event ev_stamp SensorTriggered
                                 (''Sensor triggered (system disarmed): '' @ message) Info
                                 (Some sensor_id) (Some (s_zone_id sensor)) w2)
                 in (Inr \<lparr>tr_alert = False, tr_message = ''Logged: '' @ message,
                          tr_severity = Info\<rparr>, w3))))"

definition reset_sensor :: "string \<Rightarrow> world \<Rightarrow> (http_error + string) \<times> world" where
  "reset_sensor sensor_id w =
     (let (matched, ss) = update_one (\<lambda>s. s_id s = sensor_id) (\<lambda>s. s\<lparr>s_status := Active\<rparr>)
                            (sensors w);
          w1 = w\<lparr>sensors := ss\<rparr>
      in if matched = 0 then (Inl (HTTPException 404 ''Sensor not found''), w1)
         else (Inr ''Sensor reset'', w1))"

section \<open>Events\<close>

definition clear_events :: "string \<times> datetime \<Rightarrow> world \<Rightarrow> (http_error + string) \<times> world" where
  "clear_events ev_stamp w =
     (let w1 = w\<lparr>events := delete_many (\<lambda>_. True) (events w)\<rparr>;
          w2 = snd (log_event ev_stamp System ''Activity log cleared'' Info None None w1)
      in (Inr ''Events cleared'', w2))"

section \<open>Settings\<close>

text \<open>What \<open>Settings(**doc)\<close> makes of a stored document: absent fields take the defaults.\<close>

record settings_model =
  sm_id :: string
  sm_sms_enabled :: bool
  sm_alert_phone_number :: "string option"
  sm_updated_at :: datetime

definition Settings :: "settings_doc \<Rightarrow> settings_model" where
  "Settings d =
     \<lparr>sm_id = st_id d,
      sm_sms_enabled = (case st_sms_enabled d of None \<Rightarrow> False | Some b \<Rightarrow> b),
      sm_alert_phone_number = st_alert_phone_number d,
      sm_updated_at = st_updated_at d\<rparr>"

definition get_settings :: "datetime \<Rightarrow> world \<Rightarrow> (http_error + settings_model) \<times> world" where
  "get_settings now w =
     (case find_one (\<lambda>d. st_id d = ''settings'') (settings w) of
        None \<Rightarrow>
          (let doc = \<lparr>st_id = ''settings'', st_sms_enabled = Some False,
                     st_alert_phone_number = None, st_updated_at = now\<rparr>
           in (Inr (Settings doc), w\<lparr>settings := insert_one doc (settings w)\<rparr>))
      | Some d \<Rightarrow> (Inr (Settings d), w))"

datatype settings_field = StSmsEnabled bool | StAlertPhoneNumber string | StUpdatedAt datetime

definition settings_update_data :: "settings_update \<Rightarrow> settings_field list" where
  "settings_update_data u =
     (case stu_sms_enabled u of None \<Rightarrow> [] | Some v \<Rightarrow> [StSmsEnabled v]) @
     (case stu_alert_phone_number u of None \<Rightarrow> [] | Some v \<Rightarrow> [StAlertPhoneNumber v])"

fun set_settings_field :: "settings_field \<Rightarrow> settings_doc \<Rightarrow> settings_doc" where
  "set_settings_field (StSmsEnabled v) d = d\<lparr>st_sms_enabled := Some v\<rparr>"
| "set_settings_field (StAlertPhoneNumber v) d = d\<lparr>st_alert_phone_number := Some v\<rparr>"
| "set_settings_field (StUpdatedAt v) d = d\<lparr>st_updated_at := v\<rparr>"

text \<open>
  \<open>update_settings\<close> has no emptiness check: \<open>updated_at\<close> is added to \<open>update_data\<close>
  before the upsert, whose seed document holds the filter's \<open>id\<close> only (its
  \<open>st_updated_at\<close> is overwritten by the \<open>$set\<close>).
\<close>

definition update_settings ::
  "datetime \<Rightarrow> settings_update \<Rightarrow> world \<Rightarrow> (http_error + settings_model) \<times> world" where
  "update_settings now u w =
     (let update_data = settings_update_data u @ [StUpdatedAt now];
          w1 = w\<lparr>settings :=
                     update_one_upsert (\<lambda>d. st_id d = ''settings'') (fold set_settings_field update_data)
                       \<lparr>st_id = ''settings'', st_sms_enabled = None, st_alert_phone_number = None,
                        st_updated_at = now\<rparr>
                       (settings w)\<rparr>
      in case find_one (\<lambda>d. st_id d = ''settings'') (settings w1) of
           None \<Rightarrow> (Inl (HTTPException 500 ''Internal Server Error''), w1)
         | Some d \<Rightarrow> (Inr (Settings d), w1))"

section \<open>Requests\<close>

text \<open>
  \<open>get_state\<close> and \<open>get_dashboard_stats\<close> write through \<open>get_system_state\<close> only; the
  counts and the recent events of the dashboard are reads.
\<close>

definition get_state :: "datetime \<Rightarrow> world \<Rightarrow> (http_error + system_state_doc) \<times> world" where
  "get_state now w = (let (state, w1) = get_system_state now w in (Inr state, w1))"

text \<open>
  Every endpoint that can write to the store, the provider or the logger, with the inputs
  it consumes. The listing endpoints (\<open>root\<close>, \<open>get_zones\<close>, \<open>get_sensors\<close>,
  \<open>get_sensors_by_zone\<close>, \<open>get_events\<close>) only read.
\<close>

datatype request =
    GetState datetime
  | UpdateState datetime datetime "string \<times> datetime" mode
  | CreateZone "string \<times> datetime" "string \<times> datetime" string "string option" "string option"
  | UpdateZone string zone_update
  | DeleteZone "string \<times> datetime" string
  | CreateSensor "string \<times> datetime" "string \<times> datetime" string sensor_type string "int option"
  | UpdateSensor string sensor_update
  | DeleteSensor "string \<times> datetime" string
  | TriggerSensor datetime datetime "string \<times> datetime" "string \<times> datetime" string
  | ResetSensor string
  | ClearEvents "string \<times> datetime"
  | GetSettings datetime
  | UpdateSettings datetime settings_update
  | GetDashboardStats datetime

fun step :: "env \<Rightarrow> request \<Rightarrow> world \<Rightarrow> world" where
  "step cfg (GetState now) w = snd (get_state now w)"
| "step cfg (UpdateState st_now upd_now ev new_mode) w = snd (update_state st_now upd_now ev new_mode w)"
| "step cfg (CreateZone zs ev name description image_url) w =
     snd (create_zone zs ev name description image_url w)"
| "step cfg (UpdateZone zone_id u) w = snd (update_zone zone_id u w)"
| "step cfg (DeleteZone ev zone_id) w = snd (delete_zone ev zone_id w)"
| "step cfg (CreateSensor ss ev name ty zone_id battery_level) w =
     snd (create_sensor ss ev name ty zone_id battery_level w)"
| "step cfg (UpdateSensor sensor_id u) w = snd (update_sensor sensor_id u w)"
| "step cfg (DeleteSensor ev sensor_id) w = snd (delete_sensor ev sensor_id w)"
| "step cfg (TriggerSensor now st_now ev sms sensor_id) w =
     snd (trigger_sensor cfg now st_now ev sms sensor_id w)"
| "step cfg (ResetSensor sensor_id) w = snd (reset_sensor sensor_id w)"
| "step cfg (ClearEvents ev) w = snd (clear_events ev w)"
| "step cfg (GetSettings now) w = snd (get_settings now w)"
| "step cfg (UpdateSettings now u) w = snd (update_settings now u w)"
| "step cfg (GetDashboardStats now) w = snd (get_system_state now w)"

text \<open>A sequence of requests served one after the other, the first of the list first.\<close>

fun run :: "env \<Rightarrow> request list \<Rightarrow> world \<Rightarrow> world" where
  "run cfg [] w = w"
| "run cfg (r # rs) w = run cfg rs (step cfg r w)"

fun is_update_settings :: "request \<Rightarrow> bool" where
  "is_update_settings (UpdateSettings now u) = True"
| "is_update_settings _ = False"

text \<open>The store before the first request: every collection empty, nothing sent or logged.\<close>

definition fresh_world :: world where
  "fresh_world = \<lparr>zones = [], sensors = [], events = [], system_state = [], settings = [],
                  twilio_calls = [], log_lines = []\<rparr>"

section \<open>Predicates and sample values used in the statements\<close>

text \<open>
  SMS is enabled in the stored settings with a non-empty phone number, and the Twilio
  client and sender number are configured: the conditions under which \<open>send_sms_alert\<close>
  reaches the provider.
\<close>

definition sms_configured :: "env \<Rightarrow> world \<Rightarrow> bool" where
  "sms_configured cfg w =
     ((case find_one (\<lambda>d. st_id d = ''settings'') (settings w) of
         None \<Rightarrow> False
       | Some st \<Rightarrow> truthy_bool (st_sms_enabled st) \<and> truthy_str (st_alert_phone_number st)) \<and>
      twilio_client cfg \<noteq> None \<and> truthy_str (twilio_phone_number cfg))"

text \<open>
  No provider call has been made, no stored settings document enables SMS or holds a
  phone number, and no sms_sent event is in the log.
\<close>

definition sms_untouched :: "world \<Rightarrow> bool" where
  "sms_untouched w =
     (twilio_calls w = [] \<and>
      list_all (\<lambda>d. st_sms_enabled d = Some False \<and> st_alert_phone_number d = None) (settings w) \<and>
      list_all (\<lambda>e. e_type e \<noteq> SmsSent) (events w))"

definition count_type :: "event_type \<Rightarrow> event list \<Rightarrow> nat" where
  "count_type t es = length (filter (\<lambda>e. e_type e = t) es)"

definition demo_zone :: zone where
  "demo_zone = \<lparr>z_id = ''z1'', z_name = ''Hall'', z_description = Some [], z_image_url = Some [],
                z_created_at = 1\<rparr>"

definition demo_sensor :: sensor where
  "demo_sensor = \<lparr>s_id = ''s1'', s_name = ''Front'', s_type = Door, s_zone_id = ''z1'',
                  s_status = Inactive, s_battery_level = 100, s_last_triggered = None,
                  s_created_at = 2\<rparr>"

definition demo_settings :: settings_doc where
  "demo_settings = \<lparr>st_id = ''settings'', st_sms_enabled = Some True,
                    st_alert_phone_number = Some ''+15550123'', st_updated_at = 4\<rparr>"

definition demo_world :: "mode \<Rightarrow> world" where
  "demo_world m =
     \<lparr>zones = [demo_zone], sensors = [demo_sensor], events = [],
      system_state = [\<lparr>ss_id = ''system_state'', ss_mode = m, ss_updated_at = 3\<rparr>],
      settings = [demo_settings], twilio_calls = [], log_lines = []\<rparr>"

definition demo_env :: "provider_result \<Rightarrow> env" where
  "demo_env res = \<lparr>twilio_client = Some (\<lambda>_. res), twilio_phone_number = Some ''+15550100''\<rparr>"

section \<open>Facts about the store operations\<close>

lemma find_one_set_first:
  "(\<And>x. p x \<Longrightarrow> p (f x)) \<Longrightarrow> find_one p (set_first p f xs) = map_option f (find_one p xs)"
  by (induction xs) (auto simp: find_one_def)

lemma length_set_first: "length (set_first p f xs) = length xs"
  by (induction xs) auto

lemma filter_set_first:
  "(\<And>x. p x \<Longrightarrow> p (f x)) \<Longrightarrow> filter (\<lambda>x. \<not> p x) (set_first p f xs) = filter (\<lambda>x. \<not> p x) xs"
  by (induction xs) auto

lemma set_first_fixed: "find_one p xs = Some x \<Longrightarrow> f x = x \<Longrightarrow> set_first p f xs = xs"
  by (induction xs) (auto simp: find_one_def split: if_splits)

lemma find_one_Some_D: "find_one p xs = Some x \<Longrightarrow> p x \<and> x \<in> set xs"
  by (induction xs) (auto simp: find_one_def split: if_splits)

section \<open>Frame facts: what each helper leaves alone\<close>

lemma log_event_fields:
  "events (snd (log_event st t m sv a b w)) =
     events w @ [\<lparr>e_id = fst st, e_type = t, e_message = m, e_severity = sv,
                  e_sensor_id = a, e_zone_id = b, e_timestamp = snd st\<rparr>]"
  "zones (snd (log_event st t m sv a b w)) = zones w"
  "sensors (snd (log_event st t m sv a b w)) = sensors w"
  "system_state (snd (log_event st t m sv a b w)) = system_state w"
  "settings (snd (log_event st t m sv a b w)) = settings w"
  "twilio_calls (snd (log_event st t m sv a b w)) = twilio_calls w"
  "log_lines (snd (log_event st t m sv a b w)) = log_lines w"
  by (simp_all add: log_event_def insert_one_def Let_def)

lemma get_system_state_fields:
  "events (snd (get_system_state n w)) = events w"
  "zones (snd (get_system_state n w)) = zones w"
  "sensors (snd (get_system_state n w)) = sensors w"
  "settings (snd (get_system_state n w)) = settings w"
  "twilio_calls (snd (get_system_state n w)) = twilio_calls w"
  "log_lines (snd (get_system_state n w)) = log_lines w"
  by (simp_all add: get_system_state_def Let_def split: option.splits)

lemma get_system_state_mode_frame:
  "system_state w1 = system_state w \<Longrightarrow> fst (get_system_state n w1) = fst (get_system_state n w)"
  by (simp add: get_system_state_def Let_def split: option.splits)

lemma send_sms_alert_frame:
  "zones (snd (send_sms_alert cfg st m w)) = zones w"
  "sensors (snd (send_sms_alert cfg st m w)) = sensors w"
  "system_state (snd (send_sms_alert cfg st m w)) = system_state w"
  "settings (snd (send_sms_alert cfg st m w)) = settings w"
  by (simp_all add: send_sms_alert_def logger_write_def log_event_fields Let_def
      split: option.splits provider_result.splits)

lemma send_sms_alert_events:
  "events (snd (send_sms_alert cfg st m w)) = events w \<or>
   events (snd (send_sms_alert cfg st m w)) =
     events w @ [\<lparr>e_id = fst st, e_type = SmsSent, e_message = ''SMS alert sent: '' @ m,
                  e_severity = Info, e_sensor_id = None, e_zone_id = None, e_timestamp = snd st\<rparr>]"
  by (simp add: send_sms_alert_def logger_write_def log_event_fields Let_def
      split: option.splits provider_result.splits)

lemma send_sms_alert_log_lines:
  "\<exists>l. log_lines (snd (send_sms_alert cfg st m w)) = log_lines w @ [l]"
  by (simp add: send_sms_alert_def logger_write_def log_event_fields Let_def
      split: option.splits provider_result.splits)

lemma send_sms_alert_unconfigured:
  "\<not> sms_configured cfg w \<Longrightarrow>
     \<exists>lvl line. send_sms_alert cfg st m w = (False, logger_write lvl line w)"
  by (auto simp: send_sms_alert_def sms_configured_def split: option.splits)

lemma send_sms_alert_configured:
  "sms_configured cfg w \<Longrightarrow>
     \<exists>c. twilio_calls (snd (send_sms_alert cfg st m w)) = twilio_calls w @ [c] \<and> sms_body c = m"
  by (auto simp: send_sms_alert_def sms_configured_def logger_write_def log_event_fields Let_def
      split: option.splits provider_result.splits)

lemma sms_configured_frame: "settings w1 = settings w \<Longrightarrow> sms_configured cfg w1 = sms_configured cfg w"
  by (simp add: sms_configured_def)

lemma logger_write_fields:
  "events (logger_write lvl line w) = events w"
  "zones (logger_write lvl line w) = zones w"
  "sensors (logger_write lvl line w) = sensors w"
  "system_state (logger_write lvl line w) = system_state w"
  "settings (logger_write lvl line w) = settings w"
  "twilio_calls (logger_write lvl line w) = twilio_calls w"
  "log_lines (logger_write lvl line w) = log_lines w @ [(lvl, line)]"
  by (simp_all add: logger_write_def)

section \<open>The trigger handler\<close>

lemma trigger_sensor_found:
  assumes "find_one (\<lambda>s. s_id s = sid) (sensors w) = Some sensor"
  shows "trigger_sensor cfg now st_now ev sms sid w =
    (let message = trigger_message sensor (zone_name_of sensor w);
         w2 = snd (get_system_state st_now
                (w\<lparr>sensors := set_first (\<lambda>s. s_id s = sid)
                     (\<lambda>s. s\<lparr>s_status := Triggered, s_last_triggered := Some now\<rparr>) (sensors w)\<rparr>))
     in case ss_mode (fst (get_system_state st_now w)) of
          Armed \<Rightarrow>
            (Inr \<lparr>tr_alert = True, tr_message = ''INTRUSION: '' @ message, tr_severity = Danger\<rparr>,
             snd (send_sms_alert cfg sms (alert_marker @ '' SECURITY ALERT: '' @ message)
                (snd (log_event ev Intrusion
                                 (alert_marker @ '' INTRUSION DETECTED: '' @ message) Danger
                                 (Some sid) (Some (s_zone_id sensor)) w2))))
        | Monitoring \<Rightarrow>
            (Inr \<lparr>tr_alert = False, tr_message = ''Movement logged: '' @ message,
                          tr_severity = Warning\<rparr>,
             snd (log_event ev SensorTriggered
                                 (''Movement detected: '' @ message) Warning
                                 (Some sid) (Some (s_zone_id sensor)) w2))
        | Disarmed \<Rightarrow>
            (Inr \<lparr>tr_alert = False, tr_message = ''Logged: '' @ message,
                          tr_severity = Info\<rparr>,
             snd (log_event ev SensorTriggered
                                 (''Sensor triggered (system disarmed): '' @ message) Info
                                 (Some sid) (Some (s_zone_id sensor)) w2)))"
proof -
  have m: "fst (get_system_state st_now (w\<lparr>sensors := ss\<rparr>)) = fst (get_system_state st_now w)" for ss
    by (rule get_system_state_mode_frame) simp
  show ?thesis
    using assms
    by (cases "ss_mode (fst (get_system_state st_now w))")
       (simp_all add: trigger_sensor_def update_one_def Let_def split_beta m)
qed

lemma trigger_sensor_sensors:
  assumes "find_one (\<lambda>s. s_id s = sid) (sensors w) = Some sensor"
  shows "sensors (snd (trigger_sensor cfg now st_now ev sms sid w)) =
           set_first (\<lambda>s. s_id s = sid)
             (\<lambda>s. s\<lparr>s_status := Triggered, s_last_triggered := Some now\<rparr>) (sensors w)"
  by (cases "ss_mode (fst (get_system_state st_now w))")
     (simp_all add: trigger_sensor_found [OF assms] Let_def send_sms_alert_frame log_event_fields
        get_system_state_fields)

lemma alert_after_log_events:
  "\<exists>rest. events (snd (send_sms_alert cfg sms m2 (snd (log_event ev t m1 sv a b w0)))) =
      events w0 @ \<lparr>e_id = fst ev, e_type = t, e_message = m1, e_severity = sv,
                  e_sensor_id = a, e_zone_id = b, e_timestamp = snd ev\<rparr> # rest \<and>
      (\<forall>x \<in> set rest. e_type x = SmsSent)"
  using send_sms_alert_events [of cfg sms m2 "snd (log_event ev t m1 sv a b w0)"]
  by (auto simp: log_event_fields)

lemma demo_find: "find_one (\<lambda>s. s_id s = ''s1'') (sensors (demo_world m)) = Some demo_sensor"
  by (simp add: find_one_def demo_world_def demo_sensor_def)

lemma demo_mode: "ss_mode (fst (get_system_state 7 (demo_world m))) = m"
  by (simp add: get_system_state_def find_one_def demo_world_def)

text \<open>
  C1. For an existing sensor the trigger handler answers by the current mode: armed gives
  alert true with severity danger and logs an intrusion event of severity danger;
  monitoring gives alert false with severity warning and logs a sensor_triggered event of
  severity warning; disarmed gives alert false with severity info and logs a
  sensor_triggered event of severity info. When armed, the only events that can follow the
  intrusion event are sms_sent events of the gateway.
\<close>

theorem trigger_sensor_by_mode:
  assumes "find_one (\<lambda>s. s_id s = sid) (sensors w) = Some sensor"
      and "m = ss_mode (fst (get_system_state st_now w))"
      and "r = trigger_sensor cfg now st_now ev sms sid w"
  shows "(m = Armed \<longrightarrow>
            (\<exists>msg. fst r = Inr \<lparr>tr_alert = True, tr_message = msg, tr_severity = Danger\<rparr>) \<and>
            (\<exists>e rest. events (snd r) = events w @ e # rest \<and>
               e_type e = Intrusion \<and> e_severity e = Danger \<and>
               e_sensor_id e = Some sid \<and> e_zone_id e = Some (s_zone_id sensor) \<and>
               (\<forall>x \<in> set rest. e_type x = SmsSent))) \<and>
         (m = Monitoring \<longrightarrow>
            (\<exists>msg. fst r = Inr \<lparr>tr_alert = False, tr_message = msg, tr_severity = Warning\<rparr>) \<and>
            (\<exists>e. events (snd r) = events w @ [e] \<and>
               e_type e = SensorTriggered \<and> e_severity e = Warning \<and>
               e_sensor_id e = Some sid \<and> e_zone_id e = Some (s_zone_id sensor))) \<and>
         (m = Disarmed \<longrightarrow>
            (\<exists>msg. fst r = Inr \<lparr>tr_alert = False, tr_message = msg, tr_severity = Info\<rparr>) \<and>
            (\<exists>e. events (snd r) = events w @ [e] \<and>
               e_type e = SensorTriggered \<and> e_severity e = Info \<and>
               e_sensor_id e = Some sid \<and> e_zone_id e = Some (s_zone_id sensor)))"
proof (cases m)
  case Armed
  define msg where "msg = trigger_message sensor (zone_name_of sensor w)"
  define w2 where "w2 = snd (get_system_state st_now
                (w\<lparr>sensors := set_first (\<lambda>s. s_id s = sid)
                     (\<lambda>s. s\<lparr>s_status := Triggered, s_last_triggered := Some now\<rparr>) (sensors w)\<rparr>))"
  have ev2: "events w2 = events w"
    by (simp add: w2_def get_system_state_fields)
  have r: "r = (Inr \<lparr>tr_alert = True, tr_message = ''INTRUSION: '' @ msg, tr_severity = Danger\<rparr>,
                snd (send_sms_alert cfg sms (alert_marker @ '' SECURITY ALERT: '' @ msg)
                  (snd (log_event ev Intrusion (alert_marker @ '' INTRUSION DETECTED: '' @ msg)
                     Danger (Some sid) (Some (s_zone_id sensor)) w2))))"
    using Armed assms(2)
    by (simp add: assms(3) trigger_sensor_found [OF assms(1)] Let_def msg_def w2_def)
  from alert_after_log_events [of cfg sms "alert_marker @ '' SECURITY ALERT: '' @ msg" ev Intrusion
      "alert_marker @ '' INTRUSION DETECTED: '' @ msg" Danger "Some sid" "Some (s_zone_id sensor)" w2]
  obtain rest where rest: "events (snd r) = events w @
      \<lparr>e_id = fst ev, e_type = Intrusion,
       e_message = alert_marker @ '' INTRUSION DETECTED: '' @ msg, e_severity = Danger,
       e_sensor_id = Some sid, e_zone_id = Some (s_zone_id sensor), e_timestamp = snd ev\<rparr> # rest"
      "\<forall>x \<in> set rest. e_type x = SmsSent"
    unfolding r ev2 snd_conv by blast
  have "\<exists>e rest. events (snd r) = events w @ e # rest \<and>
               e_type e = Intrusion \<and> e_severity e = Danger \<and>
               e_sensor_id e = Some sid \<and> e_zone_id e = Some (s_zone_id sensor) \<and>
               (\<forall>x \<in> set rest. e_type x = SmsSent)"
    by (rule exI, rule exI [of _ rest], rule conjI, rule rest(1)) (simp add: rest(2))
  moreover have "\<exists>msg. fst r = Inr \<lparr>tr_alert = True, tr_message = msg, tr_severity = Danger\<rparr>"
    by (simp add: r)
  ultimately show ?thesis using Armed by simp
next
  case Monitoring
  with assms(2) show ?thesis
    by (simp add: assms(3) trigger_sensor_found [OF assms(1)] Let_def log_event_fields
        get_system_state_fields)
next
  case Disarmed
  with assms(2) show ?thesis
    by (simp add: assms(3) trigger_sensor_found [OF assms(1)] Let_def log_event_fields
        get_system_state_fields)
qed

theorem trigger_sensor_by_mode_witness:
  "find_one (\<lambda>s. s_id s = ''s1'') (sensors (demo_world Armed)) = Some demo_sensor \<and>
   (\<exists>msg. fst (trigger_sensor (demo_env Sent) 5 7 (''e1'', 8) (''e2'', 9) ''s1'' (demo_world Armed)) =
      Inr \<lparr>tr_alert = True, tr_message = msg, tr_severity = Danger\<rparr>) \<and>
   (\<exists>msg. fst (trigger_sensor (demo_env Sent) 5 7 (''e1'', 8) (''e2'', 9) ''s1''
                 (demo_world Monitoring)) =
      Inr \<lparr>tr_alert = False, tr_message = msg, tr_severity = Warning\<rparr>) \<and>
   (\<exists>msg. fst (trigger_sensor (demo_env Sent) 5 7 (''e1'', 8) (''e2'', 9) ''s1''
                 (demo_world Disarmed)) =
      Inr \<lparr>tr_alert = False, tr_message = msg, tr_severity = Info\<rparr>)"
  using trigger_sensor_by_mode [OF demo_find [of Armed] demo_mode [of Armed, symmetric] refl,
          of "demo_env Sent" 5 "(''e1'', 8)" "(''e2'', 9)"]
        trigger_sensor_by_mode [OF demo_find [of Monitoring] demo_mode [of Monitoring, symmetric] refl,
          of "demo_env Sent" 5 "(''e1'', 8)" "(''e2'', 9)"]
        trigger_sensor_by_mode [OF demo_find [of Disarmed] demo_mode [of Disarmed, symmetric] refl,
          of "demo_env Sent" 5 "(''e1'', 8)" "(''e2'', 9)"]
        demo_find [of Armed]
  by simp

text \<open>
  C2. For an existing sensor, a trigger in armed mode adds exactly one intrusion event and
  runs the notification gateway \<open>send_sms_alert\<close> exactly once: the final state is the
  gateway's result on the state that holds the intrusion event, the gateway's single
  logger line is the only one written, and the provider is called once if SMS is enabled
  and configured and not at all otherwise. In monitoring or disarmed mode the provider is
  never called, the gateway writes no logger line and no intrusion or sms_sent event is
  added.
\<close>

theorem trigger_sensor_dispatch:
  assumes "find_one (\<lambda>s. s_id s = sid) (sensors w) = Some sensor"
      and "m = ss_mode (fst (get_system_state st_now w))"
      and "w' = snd (trigger_sensor cfg now st_now ev sms sid w)"
  shows "(m = Armed \<longrightarrow>
            count_type Intrusion (events w') = Suc (count_type Intrusion (events w)) \<and>
            (\<exists>msg w3. w' = snd (send_sms_alert cfg sms msg w3) \<and>
               twilio_calls w3 = twilio_calls w \<and> log_lines w3 = log_lines w \<and>
               (\<exists>e. events w3 = events w @ [e] \<and> e_type e = Intrusion)) \<and>
            (\<exists>l. log_lines w' = log_lines w @ [l]) \<and>
            (sms_configured cfg w \<longrightarrow> (\<exists>c. twilio_calls w' = twilio_calls w @ [c])) \<and>
            (\<not> sms_configured cfg w \<longrightarrow> twilio_calls w' = twilio_calls w)) \<and>
         (m = Monitoring \<or> m = Disarmed \<longrightarrow>
            twilio_calls w' = twilio_calls w \<and> log_lines w' = log_lines w \<and>
            count_type Intrusion (events w') = count_type Intrusion (events w) \<and>
            count_type SmsSent (events w') = count_type SmsSent (events w))"
proof (cases m)
  case Armed
  define msg where "msg = trigger_message sensor (zone_name_of sensor w)"
  define w2 where "w2 = snd (get_system_state st_now
                (w\<lparr>sensors := set_first (\<lambda>s. s_id s = sid)
                     (\<lambda>s. s\<lparr>s_status := Triggered, s_last_triggered := Some now\<rparr>) (sensors w)\<rparr>))"
  define w3 where "w3 = snd (log_event ev Intrusion (alert_marker @ '' INTRUSION DETECTED: '' @ msg)
                     Danger (Some sid) (Some (s_zone_id sensor)) w2)"
  define body where "body = alert_marker @ '' SECURITY ALERT: '' @ msg"
  have w': "w' = snd (send_sms_alert cfg sms body w3)"
    using Armed assms(2)
    by (simp add: assms(3) trigger_sensor_found [OF assms(1)] Let_def msg_def w2_def w3_def body_def)
  have f2: "events w2 = events w" "twilio_calls w2 = twilio_calls w" "log_lines w2 = log_lines w"
    "settings w2 = settings w"
    by (simp_all add: w2_def get_system_state_fields)
  have f3: "twilio_calls w3 = twilio_calls w" "log_lines w3 = log_lines w" "settings w3 = settings w"
    by (simp_all add: w3_def log_event_fields f2)
  have e3: "events w3 = events w @ [\<lparr>e_id = fst ev, e_type = Intrusion,
       e_message = alert_marker @ '' INTRUSION DETECTED: '' @ msg, e_severity = Danger,
       e_sensor_id = Some sid, e_zone_id = Some (s_zone_id sensor), e_timestamp = snd ev\<rparr>]"
    by (simp add: w3_def log_event_fields f2)
  have cfg3: "sms_configured cfg w3 = sms_configured cfg w"
    by (rule sms_configured_frame) (rule f3(3))
  have count: "count_type Intrusion (events w') = Suc (count_type Intrusion (events w))"
    using send_sms_alert_events [of cfg sms body w3]
    by (auto simp: w' e3 count_type_def)
  have run: "\<exists>msg w3. w' = snd (send_sms_alert cfg sms msg w3) \<and>
               twilio_calls w3 = twilio_calls w \<and> log_lines w3 = log_lines w \<and>
               (\<exists>e. events w3 = events w @ [e] \<and> e_type e = Intrusion)"
    using w' f3(1,2) e3 by (intro exI [of _ body] exI [of _ w3]) simp
  have line: "\<exists>l. log_lines w' = log_lines w @ [l]"
    using send_sms_alert_log_lines [of cfg sms body w3] by (simp add: w' f3)
  have yes: "sms_configured cfg w \<Longrightarrow> \<exists>c. twilio_calls w' = twilio_calls w @ [c]"
    using send_sms_alert_configured [of cfg w3 sms body] by (auto simp: w' f3 cfg3)
  have no: "\<not> sms_configured cfg w \<Longrightarrow> twilio_calls w' = twilio_calls w"
    using send_sms_alert_unconfigured [of cfg w3 sms body]
    by (auto simp: w' f3 cfg3 logger_write_fields)
  show ?thesis using Armed count run line yes no by simp
next
  case Monitoring
  with assms(2) show ?thesis
    by (simp add: assms(3) trigger_sensor_found [OF assms(1)] Let_def log_event_fields
        get_system_state_fields count_type_def)
next
  case Disarmed
  with assms(2) show ?thesis
    by (simp add: assms(3) trigger_sensor_found [OF assms(1)] Let_def log_event_fields
        get_system_state_fields count_type_def)
qed

lemma demo_configured: "sms_configured (demo_env res) (demo_world m)"
  by (simp add: sms_configured_def demo_env_def demo_world_def demo_settings_def find_one_def
      truthy_bool_def truthy_str_def)

theorem trigger_sensor_dispatch_witness:
  "find_one (\<lambda>s. s_id s = ''s1'') (sensors (demo_world Armed)) = Some demo_sensor \<and>
   sms_configured (demo_env Sent) (demo_world Armed) \<and>
   count_type Intrusion
     (events (snd (trigger_sensor (demo_env Sent) 5 7 (''e1'', 8) (''e2'', 9) ''s1''
                     (demo_world Armed)))) = 1 \<and>
   length (twilio_calls (snd (trigger_sensor (demo_env Sent) 5 7 (''e1'', 8) (''e2'', 9) ''s1''
                     (demo_world Armed)))) = 1 \<and>
   twilio_calls (snd (trigger_sensor (demo_env Sent) 5 7 (''e1'', 8) (''e2'', 9) ''s1''
                     (demo_world Monitoring))) = [] \<and>
   twilio_calls (snd (trigger_sensor (demo_env Sent) 5 7 (''e1'', 8) (''e2'', 9) ''s1''
                     (demo_world Disarmed))) = []"
proof -
  have ev: "events (demo_world m) = []" and tc: "twilio_calls (demo_world m) = []" for m
    by (simp_all add: demo_world_def)
  from trigger_sensor_dispatch [OF demo_find [of Armed] demo_mode [of Armed, symmetric] refl,
          of "demo_env Sent" 5 "(''e1'', 8)" "(''e2'', 9)"]
       trigger_sensor_dispatch [OF demo_find [of Monitoring] demo_mode [of Monitoring, symmetric] refl,
          of "demo_env Sent" 5 "(''e1'', 8)" "(''e2'', 9)"]
       trigger_sensor_dispatch [OF demo_find [of Disarmed] demo_mode [of Disarmed, symmetric] refl,
          of "demo_env Sent" 5 "(''e1'', 8)" "(''e2'', 9)"]
       demo_find [of Armed] demo_configured [of Sent Armed]
  show ?thesis
    by (auto simp: ev tc count_type_def)
qed

text \<open>
  C3. For an existing sensor, whatever the mode, the trigger handler succeeds and leaves the
  sensor stored with status triggered and \<open>last_triggered\<close> set to the current time; its
  other fields, and every sensor with another id, are unchanged.
\<close>

theorem trigger_sensor_marks_triggered:
  assumes "find_one (\<lambda>s. s_id s = sid) (sensors w) = Some sensor"
      and "r = trigger_sensor cfg now st_now ev sms sid w"
  shows "(\<exists>resp. fst r = Inr resp) \<and>
         find_one (\<lambda>s. s_id s = sid) (sensors (snd r)) =
           Some (sensor\<lparr>s_status := Triggered, s_last_triggered := Some now\<rparr>) \<and>
         filter (\<lambda>s. s_id s \<noteq> sid) (sensors (snd r)) = filter (\<lambda>s. s_id s \<noteq> sid) (sensors w) \<and>
         length (sensors (snd r)) = length (sensors w)"
proof -
  have ok: "\<exists>resp. fst r = Inr resp"
    by (cases "ss_mode (fst (get_system_state st_now w))")
       (simp_all add: assms(2) trigger_sensor_found [OF assms(1)] Let_def)
  have s: "sensors (snd r) = set_first (\<lambda>s. s_id s = sid)
             (\<lambda>s. s\<lparr>s_status := Triggered, s_last_triggered := Some now\<rparr>) (sensors w)"
    unfolding assms(2) by (rule trigger_sensor_sensors [OF assms(1)])
  have "find_one (\<lambda>s. s_id s = sid) (sensors (snd r)) =
           Some (sensor\<lparr>s_status := Triggered, s_last_triggered := Some now\<rparr>)"
    unfolding s by (subst find_one_set_first) (simp_all add: assms(1))
  moreover have "filter (\<lambda>s. s_id s \<noteq> sid) (sensors (snd r)) =
      filter (\<lambda>s. s_id s \<noteq> sid) (sensors w)"
    unfolding s by (rule filter_set_first) simp
  moreover have "length (sensors (snd r)) = length (sensors w)"
    unfolding s by (rule length_set_first)
  ultimately show ?thesis using ok by simp
qed

theorem trigger_sensor_marks_triggered_witness:
  "find_one (\<lambda>s. s_id s = ''s1'') (sensors (demo_world Disarmed)) = Some demo_sensor \<and>
   find_one (\<lambda>s. s_id s = ''s1'')
     (sensors (snd (trigger_sensor (demo_env Sent) 5 7 (''e1'', 8) (''e2'', 9) ''s1''
                      (demo_world Disarmed)))) =
     Some (demo_sensor\<lparr>s_status := Triggered, s_last_triggered := Some 5\<rparr>)"
  using trigger_sensor_marks_triggered [OF demo_find [of Disarmed] refl,
          of "demo_env Sent" 5 7 "(''e1'', 8)" "(''e2'', 9)"]
        demo_find [of Disarmed]
  by simp

section \<open>The system state\<close>

lemma find_one_append:
  "find_one p (xs @ ys) = (case find_one p xs of None \<Rightarrow> find_one p ys | Some x \<Rightarrow> Some x)"
  by (induction xs) (auto simp: find_one_def)

lemma find_one_upsert_const:
  "p d \<Longrightarrow> find_one p (update_one_upsert p (\<lambda>_. d) d xs) = Some d"
proof (cases "find_one p xs")
  case None
  assume "p d"
  with None show ?thesis
    by (simp add: update_one_upsert_def insert_one_def find_one_append) (simp add: find_one_def)
next
  case (Some x)
  assume "p d"
  then have "find_one p (set_first p (\<lambda>_. d) xs) = map_option (\<lambda>_. d) (find_one p xs)"
    by (intro find_one_set_first) simp
  with Some show ?thesis
    by (simp add: update_one_upsert_def)
qed

lemma update_state_unfold:
  "update_state st_now upd_now ev new_mode w =
     (let d = \<lparr>ss_id = ''system_state'', ss_mode = new_mode, ss_updated_at = upd_now\<rparr>;
          w1 = snd (get_system_state st_now w);
          w2 = w1\<lparr>system_state :=
                     update_one_upsert (\<lambda>d. ss_id d = ''system_state'') (\<lambda>_. d) d (system_state w1)\<rparr>
      in (Inr d,
          if ss_mode (fst (get_system_state st_now w)) = new_mode then w2
          else (case new_mode of
                  Armed \<Rightarrow> snd (log_event ev EvArmed ''System armed'' Warning None None w2)
                | Disarmed \<Rightarrow> snd (log_event ev EvDisarmed ''System disarmed'' Info None None w2)
                | Monitoring \<Rightarrow>
                    snd (log_event ev MonitorStart ''Monitoring mode enabled'' Info None None w2))))"
  by (simp add: update_state_def Let_def split_beta)

text \<open>
  C5. \<open>update_state\<close> always answers with, and leaves stored as the singleton, a document
  holding the new mode and the new \<open>updated_at\<close>. It appends one event exactly when the
  new mode differs from the previous one: armed gives severity warning with message
  "System armed", disarmed gives info with "System disarmed", monitoring gives info with
  "Monitoring mode enabled". When the mode does not change the events are untouched.
\<close>

theorem update_state_overwrites_and_logs:
  assumes "old_mode = ss_mode (fst (get_system_state st_now w))"
      and "r = update_state st_now upd_now ev new_mode w"
      and "d = \<lparr>ss_id = ''system_state'', ss_mode = new_mode, ss_updated_at = upd_now\<rparr>"
  shows "fst r = Inr d \<and>
         find_one (\<lambda>d. ss_id d = ''system_state'') (system_state (snd r)) = Some d \<and>
         (old_mode \<noteq> new_mode \<and> new_mode = Armed \<longrightarrow>
            events (snd r) = events w @
              [\<lparr>e_id = fst ev, e_type = EvArmed, e_message = ''System armed'', e_severity = Warning,
                e_sensor_id = None, e_zone_id = None, e_timestamp = snd ev\<rparr>]) \<and>
         (old_mode \<noteq> new_mode \<and> new_mode = Disarmed \<longrightarrow>
            events (snd r) = events w @
              [\<lparr>e_id = fst ev, e_type = EvDisarmed, e_message = ''System disarmed'',
                e_severity = Info, e_sensor_id = None, e_zone_id = None, e_timestamp = snd ev\<rparr>]) \<and>
         (old_mode \<noteq> new_mode \<and> new_mode = Monitoring \<longrightarrow>
            events (snd r) = events w @
              [\<lparr>e_id = fst ev, e_type = MonitorStart, e_message = ''Monitoring mode enabled'',
                e_severity = Info, e_sensor_id = None, e_zone_id = None, e_timestamp = snd ev\<rparr>]) \<and>
         (old_mode = new_mode \<longrightarrow> events (snd r) = events w)"
proof -
  define w1 where "w1 = snd (get_system_state st_now w)"
  define w2 where "w2 = w1\<lparr>system_state :=
      update_one_upsert (\<lambda>d. ss_id d = ''system_state'') (\<lambda>_. d) d (system_state w1)\<rparr>"
  have r: "r = (Inr d,
          if old_mode = new_mode then w2
          else (case new_mode of
                  Armed \<Rightarrow> snd (log_event ev EvArmed ''System armed'' Warning None None w2)
                | Disarmed \<Rightarrow> snd (log_event ev EvDisarmed ''System disarmed'' Info None None w2)
                | Monitoring \<Rightarrow>
                    snd (log_event ev MonitorStart ''Monitoring mode enabled'' Info None None w2)))"
    unfolding assms(2) update_state_unfold
    by (cases new_mode) (simp_all add: Let_def w1_def w2_def assms(1) assms(3))
  have e2: "events w2 = events w"
    by (simp add: w2_def w1_def get_system_state_fields)
  have "ss_id d = ''system_state''" by (simp add: assms(3))
  then have s2: "find_one (\<lambda>d. ss_id d = ''system_state'') (system_state w2) = Some d"
    unfolding w2_def by (simp add: find_one_upsert_const [where p = "\<lambda>d. ss_id d = ''system_state''"])
  have stored: "find_one (\<lambda>d. ss_id d = ''system_state'') (system_state (snd r)) = Some d"
    by (cases new_mode) (simp_all add: r s2 log_event_fields)
  have same: "old_mode = new_mode \<longrightarrow> events (snd r) = events w"
    by (simp add: r e2)
  have diff: "old_mode \<noteq> new_mode \<Longrightarrow> events (snd r) = events w @
      [\<lparr>e_id = fst ev,
        e_type = (case new_mode of Armed \<Rightarrow> EvArmed | Disarmed \<Rightarrow> EvDisarmed
                  | Monitoring \<Rightarrow> MonitorStart),
        e_message = (case new_mode of Armed \<Rightarrow> ''System armed'' | Disarmed \<Rightarrow> ''System disarmed''
                     | Monitoring \<Rightarrow> ''Monitoring mode enabled''),
        e_severity = (case new_mode of Armed \<Rightarrow> Warning | _ \<Rightarrow> Info),
        e_sensor_id = None, e_zone_id = None, e_timestamp = snd ev\<rparr>]"
    by (cases new_mode) (simp_all add: r e2 log_event_fields)
  show ?thesis
    using stored same diff by (cases new_mode) (simp_all add: r)
qed

theorem update_state_overwrites_and_logs_witness:
  "find_one (\<lambda>d. ss_id d = ''system_state'')
     (system_state (snd (update_state 7 8 (''e1'', 9) Armed (demo_world Disarmed)))) =
     Some \<lparr>ss_id = ''system_state'', ss_mode = Armed, ss_updated_at = 8\<rparr> \<and>
   events (snd (update_state 7 8 (''e1'', 9) Armed (demo_world Disarmed))) =
     [\<lparr>e_id = ''e1'', e_type = EvArmed, e_message = ''System armed'', e_severity = Warning,
       e_sensor_id = None, e_zone_id = None, e_timestamp = 9\<rparr>] \<and>
   events (snd (update_state 7 8 (''e1'', 9) Armed (demo_world Armed))) = []"
proof -
  have ev: "events (demo_world m) = []" for m by (simp add: demo_world_def)
  from update_state_overwrites_and_logs [OF demo_mode [of Disarmed, symmetric] refl refl,
         of 8 "(''e1'', 9)" Armed]
       update_state_overwrites_and_logs [OF demo_mode [of Armed, symmetric] refl refl,
         of 8 "(''e1'', 9)" Armed]
  show ?thesis by (simp add: ev)
qed

section \<open>The notification gateway\<close>

text \<open>
  C6. \<open>send_sms_alert\<close> returns false and changes neither the store nor the provider's
  call list when SMS is disabled in the settings (or no settings document exists), when
  no alert phone number is stored, or when the Twilio client or sender number is missing.
  Otherwise it calls the provider once: on success it appends exactly one sms_sent event
  and returns true; when the provider raises, it returns false and appends no event. The
  function returns a boolean in every case.
\<close>

theorem send_sms_alert_contract:
  assumes "st = find_one (\<lambda>d. st_id d = ''settings'') (settings w)"
      and "r = send_sms_alert cfg stamp message w"
      and "m = \<lparr>sms_body = message, sms_from = sender, sms_to = to\<rparr>"
  shows "((st = None \<or> (\<exists>d. st = Some d \<and> st_sms_enabled d \<noteq> Some True)) \<or>
          (\<exists>d. st = Some d \<and>
             (st_alert_phone_number d = None \<or> st_alert_phone_number d = Some [])) \<or>
          (twilio_client cfg = None \<or> twilio_phone_number cfg = None \<or>
             twilio_phone_number cfg = Some [])
          \<longrightarrow> fst r = False \<and> twilio_calls (snd r) = twilio_calls w \<and>
              events (snd r) = events w \<and> zones (snd r) = zones w \<and>
              sensors (snd r) = sensors w \<and> system_state (snd r) = system_state w \<and>
              settings (snd r) = settings w) \<and>
         (st = Some d \<and> st_sms_enabled d = Some True \<and> st_alert_phone_number d = Some to \<and>
          to \<noteq> [] \<and> twilio_client cfg = Some create \<and> twilio_phone_number cfg = Some sender \<and>
          sender \<noteq> []
          \<longrightarrow> twilio_calls (snd r) = twilio_calls w @ [m] \<and>
              (create m = Sent \<longrightarrow>
                 fst r = True \<and>
                 events (snd r) = events w @
                   [\<lparr>e_id = fst stamp, e_type = SmsSent,
                     e_message = ''SMS alert sent: '' @ message, e_severity = Info,
                     e_sensor_id = None, e_zone_id = None, e_timestamp = snd stamp\<rparr>]) \<and>
              (\<forall>e. create m = Raised e \<longrightarrow> fst r = False \<and> events (snd r) = events w))"
proof -
  have off: "fst r = False \<and> twilio_calls (snd r) = twilio_calls w \<and>
              events (snd r) = events w \<and> zones (snd r) = zones w \<and>
              sensors (snd r) = sensors w \<and> system_state (snd r) = system_state w \<and>
              settings (snd r) = settings w"
    if "(st = None \<or> (\<exists>d. st = Some d \<and> st_sms_enabled d \<noteq> Some True)) \<or>
          (\<exists>d. st = Some d \<and>
             (st_alert_phone_number d = None \<or> st_alert_phone_number d = Some [])) \<or>
          (twilio_client cfg = None \<or> twilio_phone_number cfg = None \<or>
             twilio_phone_number cfg = Some [])"
  proof -
    from that have "\<not> sms_configured cfg w"
      by (auto simp: sms_configured_def assms(1) [symmetric] truthy_bool_def truthy_str_def
          split: option.splits)
    from send_sms_alert_unconfigured [OF this, of stamp message]
    obtain lvl line where "r = (False, logger_write lvl line w)"
      unfolding assms(2) by blast
    then show ?thesis
      by (simp add: logger_write_fields)
  qed
  have on: "twilio_calls (snd r) = twilio_calls w @ [m] \<and>
              (create m = Sent \<longrightarrow>
                 fst r = True \<and>
                 events (snd r) = events w @
                   [\<lparr>e_id = fst stamp, e_type = SmsSent,
                     e_message = ''SMS alert sent: '' @ message, e_severity = Info,
                     e_sensor_id = None, e_zone_id = None, e_timestamp = snd stamp\<rparr>]) \<and>
              (\<forall>e. create m = Raised e \<longrightarrow> fst r = False \<and> events (snd r) = events w)"
    if "st = Some d \<and> st_sms_enabled d = Some True \<and> st_alert_phone_number d = Some to \<and>
          to \<noteq> [] \<and> twilio_client cfg = Some create \<and> twilio_phone_number cfg = Some sender \<and>
          sender \<noteq> []"
  proof -
    from that have r: "r = (let w1 = w\<lparr>twilio_calls := twilio_calls w @ [m]\<rparr> in
      case create m of
        Sent \<Rightarrow> (True, logger_write INFO (''SMS sent to '' @ to)
                   (snd (log_event stamp SmsSent (''SMS alert sent: '' @ message) Info None None w1)))
      | Raised e \<Rightarrow> (False, logger_write ERROR (''Failed to send SMS: '' @ e) w1))"
      by (cases "create m")
         (simp_all add: assms(2) send_sms_alert_def assms(1) [symmetric] truthy_bool_def
            truthy_str_def Let_def assms(3) [symmetric])
    show ?thesis
      by (cases "create m") (simp_all add: r logger_write_fields log_event_fields)
  qed
  from off on show ?thesis by blast
qed


lemma demo_settings_found:
  "find_one (\<lambda>d. st_id d = ''settings'') (settings (demo_world md)) = Some demo_settings"
  by (simp add: find_one_def demo_world_def demo_settings_def)

theorem send_sms_alert_contract_witness:
  "find_one (\<lambda>d. st_id d = ''settings'') (settings fresh_world) = None \<and>
   fst (send_sms_alert (demo_env Sent) (''e2'', 9) ''hi'' fresh_world) = False \<and>
   twilio_calls (snd (send_sms_alert (demo_env Sent) (''e2'', 9) ''hi'' fresh_world)) = [] \<and>
   events (snd (send_sms_alert (demo_env Sent) (''e2'', 9) ''hi'' fresh_world)) = [] \<and>
   fst (send_sms_alert (demo_env Sent) (''e2'', 9) ''hi'' (demo_world Armed)) = True \<and>
   events (snd (send_sms_alert (demo_env Sent) (''e2'', 9) ''hi'' (demo_world Armed))) =
     [\<lparr>e_id = ''e2'', e_type = SmsSent, e_message = ''SMS alert sent: hi'', e_severity = Info,
       e_sensor_id = None, e_zone_id = None, e_timestamp = 9\<rparr>] \<and>
   twilio_calls (snd (send_sms_alert (demo_env Sent) (''e2'', 9) ''hi'' (demo_world Armed))) =
     [\<lparr>sms_body = ''hi'', sms_from = ''+15550100'', sms_to = ''+15550123''\<rparr>] \<and>
   fst (send_sms_alert (demo_env (Raised ''boom'')) (''e2'', 9) ''hi'' (demo_world Armed)) = False \<and>
   events (snd (send_sms_alert (demo_env (Raised ''boom'')) (''e2'', 9) ''hi''
                  (demo_world Armed))) = []"
proof -
  have none: "find_one (\<lambda>d. st_id d = ''settings'') (settings fresh_world) = None"
    by (simp add: find_one_def fresh_world_def)
  have f: "twilio_calls fresh_world = []" "events fresh_world = []"
    by (simp_all add: fresh_world_def)
  have d: "twilio_calls (demo_world Armed) = []" "events (demo_world Armed) = []"
    by (simp_all add: demo_world_def)
  have c: "twilio_client (demo_env res) = Some (\<lambda>_. res)"
      "twilio_phone_number (demo_env res) = Some ''+15550100''" for res
    by (simp_all add: demo_env_def)
  have s: "st_sms_enabled demo_settings = Some True"
      "st_alert_phone_number demo_settings = Some ''+15550123''"
    by (simp_all add: demo_settings_def)
  from send_sms_alert_contract [OF none [symmetric] refl refl,
         of "demo_env Sent" "(''e2'', 9)" "''hi''"]
  have 1: "fst (send_sms_alert (demo_env Sent) (''e2'', 9) ''hi'' fresh_world) = False \<and>
      twilio_calls (snd (send_sms_alert (demo_env Sent) (''e2'', 9) ''hi'' fresh_world)) = [] \<and>
      events (snd (send_sms_alert (demo_env Sent) (''e2'', 9) ''hi'' fresh_world)) = []"
    by (simp add: f)
  from send_sms_alert_contract [OF demo_settings_found [of Armed, symmetric] refl refl,
         where cfg = "demo_env Sent" and stamp = "(''e2'', 9)" and message = "''hi''"
           and d = demo_settings and to = "''+15550123''" and sender = "''+15550100''"
           and create = "\<lambda>_. Sent"]
  have 2: "fst (send_sms_alert (demo_env Sent) (''e2'', 9) ''hi'' (demo_world Armed)) = True \<and>
     events (snd (send_sms_alert (demo_env Sent) (''e2'', 9) ''hi'' (demo_world Armed))) =
       [\<lparr>e_id = ''e2'', e_type = SmsSent, e_message = ''SMS alert sent: hi'', e_severity = Info,
         e_sensor_id = None, e_zone_id = None, e_timestamp = 9\<rparr>] \<and>
     twilio_calls (snd (send_sms_alert (demo_env Sent) (''e2'', 9) ''hi'' (demo_world Armed))) =
       [\<lparr>sms_body = ''hi'', sms_from = ''+15550100'', sms_to = ''+15550123''\<rparr>]"
    by (simp add: d c s)
  from send_sms_alert_contract [OF demo_settings_found [of Armed, symmetric] refl refl,
         where cfg = "demo_env (Raised ''boom'')" and stamp = "(''e2'', 9)" and message = "''hi''"
           and d = demo_settings and to = "''+15550123''" and sender = "''+15550100''"
           and create = "\<lambda>_. Raised ''boom''"]
  have 3: "fst (send_sms_alert (demo_env (Raised ''boom'')) (''e2'', 9) ''hi'' (demo_world Armed)) =
       False \<and>
     events (snd (send_sms_alert (demo_env (Raised ''boom'')) (''e2'', 9) ''hi''
                    (demo_world Armed))) = []"
    by (simp add: d c s)
  from none 1 2 3 show ?thesis by simp
qed

section \<open>Clearing the log and resetting a sensor\<close>

text \<open>
  C8. Whatever the events collection held, \<open>clear_events\<close> empties it and then appends
  the system event "Activity log cleared": afterwards the log holds exactly that one
  event. Nothing else is changed.
\<close>

theorem clear_events_leaves_marker:
  "fst (clear_events ev w) = Inr ''Events cleared'' \<and>
   events (snd (clear_events ev w)) =
     [\<lparr>e_id = fst ev, e_type = System, e_message = ''Activity log cleared'', e_severity = Info,
       e_sensor_id = None, e_zone_id = None, e_timestamp = snd ev\<rparr>] \<and>
   snd (clear_events ev w) = w\<lparr>events := events (snd (clear_events ev w))\<rparr>"
  by (simp add: clear_events_def delete_many_def log_event_def insert_one_def Let_def)

text \<open>
  C9. Resetting an existing sensor whose status is already active succeeds and changes
  nothing: the sensor is still stored with status active, no event is appended, and the
  whole state is as before.
\<close>

theorem reset_sensor_active_idempotent:
  assumes "find_one (\<lambda>s. s_id s = sid) (sensors w) = Some sensor"
      and "s_status sensor = Active"
  shows "reset_sensor sid w = (Inr ''Sensor reset'', w) \<and>
         find_one (\<lambda>s. s_id s = sid) (sensors (snd (reset_sensor sid w))) = Some sensor \<and>
         events (snd (reset_sensor sid w)) = events w"
proof -
  have "sensor\<lparr>s_status := Active\<rparr> = sensor"
    using assms(2) by simp
  with assms(1)
  have "set_first (\<lambda>s. s_id s = sid) (\<lambda>s. s\<lparr>s_status := Active\<rparr>) (sensors w) = sensors w"
    by (intro set_first_fixed [where x = sensor]) simp_all
  then have "reset_sensor sid w = (Inr ''Sensor reset'', w)"
    using assms(1) by (simp add: reset_sensor_def update_one_def matched_count_def)
  then show ?thesis using assms(1) by simp
qed

theorem reset_sensor_active_idempotent_witness:
  "find_one (\<lambda>s. s_id s = ''s1'')
     (sensors ((demo_world Armed)\<lparr>sensors := [demo_sensor\<lparr>s_status := Active\<rparr>]\<rparr>)) =
     Some (demo_sensor\<lparr>s_status := Active\<rparr>) \<and>
   s_status (demo_sensor\<lparr>s_status := Active\<rparr>) = Active \<and>
   reset_sensor ''s1'' ((demo_world Armed)\<lparr>sensors := [demo_sensor\<lparr>s_status := Active\<rparr>]\<rparr>) =
     (Inr ''Sensor reset'', (demo_world Armed)\<lparr>sensors := [demo_sensor\<lparr>s_status := Active\<rparr>]\<rparr>)"
proof -
  have f: "find_one (\<lambda>s. s_id s = ''s1'')
     (sensors ((demo_world Armed)\<lparr>sensors := [demo_sensor\<lparr>s_status := Active\<rparr>]\<rparr>)) =
     Some (demo_sensor\<lparr>s_status := Active\<rparr>)"
    by (simp add: find_one_def demo_sensor_def)
  have a: "s_status (demo_sensor\<lparr>s_status := Active\<rparr>) = Active" by simp
  from reset_sensor_active_idempotent [OF f a] f a show ?thesis by simp
qed

section \<open>Deleting a zone\<close>

lemma delete_one_split:
  "find_one p xs = Some x \<Longrightarrow>
     \<exists>ys zs. xs = ys @ x # zs \<and> delete_one p xs = ys @ zs \<and> (\<forall>y \<in> set ys. \<not> p y)"
proof (induction xs)
  case Nil
  then show ?case by (simp add: find_one_def)
next
  case (Cons a xs)
  show ?case
  proof (cases "p a")
    case True
    with Cons.prems have "a = x" by (simp add: find_one_def)
    with True have "a # xs = [] @ x # xs \<and> delete_one p (a # xs) = [] @ xs \<and>
        (\<forall>y \<in> set []. \<not> p y)"
      by simp
    then show ?thesis by blast
  next
    case False
    with Cons.prems have "find_one p xs = Some x" by (simp add: find_one_def)
    from Cons.IH [OF this] obtain ys zs where
      "xs = ys @ x # zs" "delete_one p xs = ys @ zs" "\<forall>y \<in> set ys. \<not> p y"
      by blast
    with False have "a # xs = (a # ys) @ x # zs \<and> delete_one p (a # xs) = (a # ys) @ zs \<and>
        (\<forall>y \<in> set (a # ys). \<not> p y)"
      by simp
    then show ?thesis by blast
  qed
qed

lemma find_one_None_iff: "find_one p xs = None \<longleftrightarrow> (\<forall>x \<in> set xs. \<not> p x)"
  by (auto simp: find_one_def find_None_iff)

lemma delete_one_distinct_gone:
  assumes "find_one (\<lambda>x. f x = k) xs = Some x" and "distinct (map f xs)"
  shows "find_one (\<lambda>x. f x = k) (delete_one (\<lambda>x. f x = k) xs) = None"
proof -
  from delete_one_split [OF assms(1)] obtain ys zs where
    s: "xs = ys @ x # zs" "delete_one (\<lambda>x. f x = k) xs = ys @ zs" "\<forall>y \<in> set ys. f y \<noteq> k"
    by blast
  from find_one_Some_D [OF assms(1)] have k: "f x = k" by simp
  from assms(2) s(1) have "f x \<notin> f ` set zs" by simp
  with k have "\<forall>y \<in> set zs. f y \<noteq> k" by blast
  with s(2,3) show ?thesis by (auto simp: find_one_None_iff)
qed

text \<open>
  C7. Deleting an existing zone that has N sensors succeeds, removes exactly the N sensors
  whose \<open>zone_id\<close> matches and keeps the others, removes the zone document (no zone with
  that id is left when zone ids are unique), and appends exactly one event, of type
  zone_removed; no sensor_removed event is logged.
\<close>

theorem delete_zone_cascades:
  assumes "find_one (\<lambda>z. z_id z = zid) (zones w) = Some z"
      and "r = delete_zone ev zid w"
      and "N = length (filter (\<lambda>s. s_zone_id s = zid) (sensors w))"
  shows "fst r = Inr ''Zone deleted'' \<and>
         sensors (snd r) = filter (\<lambda>s. s_zone_id s \<noteq> zid) (sensors w) \<and>
         length (sensors (snd r)) + N = length (sensors w) \<and>
         (\<exists>ys zs. zones w = ys @ z # zs \<and> zones (snd r) = ys @ zs) \<and>
         (distinct (map z_id (zones w)) \<longrightarrow>
            find_one (\<lambda>z. z_id z = zid) (zones (snd r)) = None) \<and>
         events (snd r) = events w @
           [\<lparr>e_id = fst ev, e_type = ZoneRemoved,
             e_message = ''Zone '' @ [CHR 0x27] @ z_name z @ [CHR 0x27] @ '' removed'',
             e_severity = Info, e_sensor_id = None, e_zone_id = Some zid,
             e_timestamp = snd ev\<rparr>] \<and>
         count_type SensorRemoved (events (snd r)) = count_type SensorRemoved (events w)"
proof -
  have r: "r = (Inr ''Zone deleted'',
      snd (log_event ev ZoneRemoved (''Zone '' @ [CHR 0x27] @ z_name z @ [CHR 0x27] @ '' removed'')
             Info None (Some zid)
             (w\<lparr>sensors := delete_many (\<lambda>s. s_zone_id s = zid) (sensors w),
                 zones := delete_one (\<lambda>z. z_id z = zid) (zones w)\<rparr>)))"
    by (simp add: assms(2) delete_zone_def assms(1) Let_def)
  have sens: "sensors (snd r) = filter (\<lambda>s. s_zone_id s \<noteq> zid) (sensors w)"
    by (simp add: r log_event_fields delete_many_def)
  have len: "length (sensors (snd r)) + N = length (sensors w)"
    unfolding sens assms(3)
    using sum_length_filter_compl [of "\<lambda>s. s_zone_id s = zid" "sensors w"] by simp
  have zs: "zones (snd r) = delete_one (\<lambda>z. z_id z = zid) (zones w)"
    by (simp add: r log_event_fields)
  from delete_one_split [OF assms(1)]
  have split: "\<exists>ys zs. zones w = ys @ z # zs \<and> zones (snd r) = ys @ zs"
    unfolding zs by blast
  have gone: "distinct (map z_id (zones w)) \<longrightarrow>
      find_one (\<lambda>z. z_id z = zid) (zones (snd r)) = None"
    unfolding zs using delete_one_distinct_gone [OF assms(1)] by blast
  have evs: "events (snd r) = events w @
           [\<lparr>e_id = fst ev, e_type = ZoneRemoved,
             e_message = ''Zone '' @ [CHR 0x27] @ z_name z @ [CHR 0x27] @ '' removed'',
             e_severity = Info, e_sensor_id = None, e_zone_id = Some zid,
             e_timestamp = snd ev\<rparr>]"
    by (simp add: r log_event_fields)
  have cnt: "count_type SensorRemoved (events (snd r)) = count_type SensorRemoved (events w)"
    unfolding evs by (simp add: count_type_def)
  have "fst r = Inr ''Zone deleted''" by (simp add: r)
  with sens len split gone evs cnt show ?thesis by blast
qed

lemma demo_zone_found: "find_one (\<lambda>z. z_id z = ''z1'') (zones (demo_world m)) = Some demo_zone"
  by (simp add: find_one_def demo_world_def demo_zone_def)

theorem delete_zone_cascades_witness:
  "find_one (\<lambda>z. z_id z = ''z1'') (zones (demo_world Armed)) = Some demo_zone \<and>
   length (filter (\<lambda>s. s_zone_id s = ''z1'') (sensors (demo_world Armed))) = 1 \<and>
   distinct (map z_id (zones (demo_world Armed))) \<and>
   fst (delete_zone (''e1'', 8) ''z1'' (demo_world Armed)) = Inr ''Zone deleted'' \<and>
   sensors (snd (delete_zone (''e1'', 8) ''z1'' (demo_world Armed))) = [] \<and>
   find_one (\<lambda>z. z_id z = ''z1'') (zones (snd (delete_zone (''e1'', 8) ''z1'' (demo_world Armed)))) =
     None \<and>
   map e_type (events (snd (delete_zone (''e1'', 8) ''z1'' (demo_world Armed)))) = [ZoneRemoved]"
proof -
  have d: "sensors (demo_world Armed) = [demo_sensor]" "zones (demo_world Armed) = [demo_zone]"
    "events (demo_world Armed) = []" "s_zone_id demo_sensor = ''z1''"
    by (simp_all add: demo_world_def demo_sensor_def)
  from delete_zone_cascades [OF demo_zone_found [of Armed] refl refl, of "(''e1'', 8)"]
       demo_zone_found [of Armed]
  show ?thesis by (simp add: d)
qed

section \<open>The update endpoints\<close>

lemma zone_update_data_empty:
  "zone_update_data u = [] \<longleftrightarrow>
     zu_name u = None \<and> zu_description u = None \<and> zu_image_url u = None"
  by (simp add: zone_update_data_def split: option.splits)

lemma sensor_update_data_empty:
  "sensor_update_data u = [] \<longleftrightarrow>
     su_name u = None \<and> su_zone_id u = None \<and> su_status u = None \<and> su_battery_level u = None"
  by (simp add: sensor_update_data_def split: option.splits)

lemma fold_zone_update_data:
  "fold set_zone_field (zone_update_data u) z =
     z\<lparr>z_name := (case zu_name u of None \<Rightarrow> z_name z | Some v \<Rightarrow> v),
       z_description := (case zu_description u of None \<Rightarrow> z_description z | Some v \<Rightarrow> Some v),
       z_image_url := (case zu_image_url u of None \<Rightarrow> z_image_url z | Some v \<Rightarrow> Some v)\<rparr>"
  by (simp add: zone_update_data_def split: option.splits)

lemma fold_sensor_update_data:
  "fold set_sensor_field (sensor_update_data u) s =
     s\<lparr>s_name := (case su_name u of None \<Rightarrow> s_name s | Some v \<Rightarrow> v),
       s_zone_id := (case su_zone_id u of None \<Rightarrow> s_zone_id s | Some v \<Rightarrow> v),
       s_status := (case su_status u of None \<Rightarrow> s_status s | Some v \<Rightarrow> v),
       s_battery_level := (case su_battery_level u of None \<Rightarrow> s_battery_level s | Some v \<Rightarrow> v)\<rparr>"
  by (simp add: sensor_update_data_def split: option.splits)

lemma fold_settings_update_data:
  "fold set_settings_field (settings_update_data u @ [StUpdatedAt now]) d =
     d\<lparr>st_sms_enabled := (case stu_sms_enabled u of None \<Rightarrow> st_sms_enabled d | Some v \<Rightarrow> Some v),
       st_alert_phone_number :=
         (case stu_alert_phone_number u of None \<Rightarrow> st_alert_phone_number d | Some v \<Rightarrow> Some v),
       st_updated_at := now\<rparr>"
  by (simp add: settings_update_data_def split: option.splits)

lemma bson_sensor_update_data:
  "list_all bson_field (sensor_update_data u) \<longleftrightarrow>
     (case su_battery_level u of None \<Rightarrow> True | Some v \<Rightarrow> bson_int v)"
  by (simp add: sensor_update_data_def split: option.splits)

lemma update_zone_empty:
  assumes "zu_name u = None" "zu_description u = None" "zu_image_url u = None"
  shows "update_zone zid u w = (Inl (HTTPException 400 ''No update data provided''), w)"
  using assms by (simp add: update_zone_def zone_update_data_empty)

lemma update_sensor_empty:
  assumes "su_name u = None" "su_zone_id u = None" "su_status u = None" "su_battery_level u = None"
  shows "update_sensor sid u w = (Inl (HTTPException 400 ''No update data provided''), w)"
  using assms by (simp add: update_sensor_def sensor_update_data_empty)

lemma update_zone_partial:
  assumes "zone_update_data u \<noteq> []" and "find_one (\<lambda>z. z_id z = zid) (zones w) = Some z"
      and "z' = fold set_zone_field (zone_update_data u) z"
  shows "fst (update_zone zid u w) = Inr z'"
    and "find_one (\<lambda>z. z_id z = zid) (zones (snd (update_zone zid u w))) = Some z'"
    and "filter (\<lambda>z. z_id z \<noteq> zid) (zones (snd (update_zone zid u w))) =
           filter (\<lambda>z. z_id z \<noteq> zid) (zones w)"
    and "snd (update_zone zid u w) = w\<lparr>zones := zones (snd (update_zone zid u w))\<rparr>"
proof -
  let ?f = "fold set_zone_field (zone_update_data u)"
  have keep: "z_id (?f x) = z_id x" for x
    by (simp add: fold_zone_update_data)
  have f: "find_one (\<lambda>z. z_id z = zid) (set_first (\<lambda>z. z_id z = zid) ?f (zones w)) = Some z'"
    by (subst find_one_set_first) (simp_all add: keep assms(2,3))
  have u: "update_zone zid u w = (Inr z', w\<lparr>zones := set_first (\<lambda>z. z_id z = zid) ?f (zones w)\<rparr>)"
    using assms(1,2) f by (simp add: update_zone_def update_one_def matched_count_def Let_def)
  show "fst (update_zone zid u w) = Inr z'" by (simp add: u)
  show "find_one (\<lambda>z. z_id z = zid) (zones (snd (update_zone zid u w))) = Some z'"
    by (simp add: u f)
  show "filter (\<lambda>z. z_id z \<noteq> zid) (zones (snd (update_zone zid u w))) =
           filter (\<lambda>z. z_id z \<noteq> zid) (zones w)"
    unfolding u by (simp add: filter_set_first keep)
  show "snd (update_zone zid u w) = w\<lparr>zones := zones (snd (update_zone zid u w))\<rparr>"
    by (simp add: u)
qed

lemma update_sensor_overflow:
  assumes "su_battery_level u = Some v" and "\<not> bson_int v"
  shows "update_sensor sid u w = (Inl (HTTPException 500 ''Internal Server Error''), w)"
proof -
  from assms(1) have "sensor_update_data u \<noteq> []"
    by (simp add: sensor_update_data_empty)
  moreover from assms have "\<not> list_all bson_field (sensor_update_data u)"
    by (simp add: bson_sensor_update_data)
  ultimately show ?thesis by (simp add: update_sensor_def)
qed

lemma update_sensor_partial:
  assumes "sensor_update_data u \<noteq> []" and "find_one (\<lambda>s. s_id s = sid) (sensors w) = Some s"
      and "s' = fold set_sensor_field (sensor_update_data u) s"
      and "list_all bson_field (sensor_update_data u)"
  shows "fst (update_sensor sid u w) = Inr s'"
    and "find_one (\<lambda>s. s_id s = sid) (sensors (snd (update_sensor sid u w))) = Some s'"
    and "filter (\<lambda>s. s_id s \<noteq> sid) (sensors (snd (update_sensor sid u w))) =
           filter (\<lambda>s. s_id s \<noteq> sid) (sensors w)"
    and "snd (update_sensor sid u w) = w\<lparr>sensors := sensors (snd (update_sensor sid u w))\<rparr>"
proof -
  let ?f = "fold set_sensor_field (sensor_update_data u)"
  have keep: "s_id (?f x) = s_id x" for x
    by (simp add: fold_sensor_update_data)
  have f: "find_one (\<lambda>s. s_id s = sid) (set_first (\<lambda>s. s_id s = sid) ?f (sensors w)) = Some s'"
    by (subst find_one_set_first) (simp_all add: keep assms(2,3))
  have u: "update_sensor sid u w =
      (Inr s', w\<lparr>sensors := set_first (\<lambda>s. s_id s = sid) ?f (sensors w)\<rparr>)"
    using assms(1,2,4) f by (simp add: update_sensor_def update_one_def matched_count_def Let_def)
  show "fst (update_sensor sid u w) = Inr s'" by (simp add: u)
  show "find_one (\<lambda>s. s_id s = sid) (sensors (snd (update_sensor sid u w))) = Some s'"
    by (simp add: u f)
  show "filter (\<lambda>s. s_id s \<noteq> sid) (sensors (snd (update_sensor sid u w))) =
           filter (\<lambda>s. s_id s \<noteq> sid) (sensors w)"
    unfolding u by (simp add: filter_set_first keep)
  show "snd (update_sensor sid u w) = w\<lparr>sensors := sensors (snd (update_sensor sid u w))\<rparr>"
    by (simp add: u)
qed

lemma find_one_upsert:
  assumes "\<And>x. p x \<Longrightarrow> p (f x)" and "p seed"
  shows "find_one p (update_one_upsert p f seed xs) =
           Some (f (case find_one p xs of None \<Rightarrow> seed | Some x \<Rightarrow> x))"
proof (cases "find_one p xs")
  case None
  have "p (f seed)" using assms by blast
  with None show ?thesis
    by (simp add: update_one_upsert_def insert_one_def find_one_append) (simp add: find_one_def)
next
  case (Some x)
  have "find_one p (set_first p f xs) = map_option f (find_one p xs)"
    by (rule find_one_set_first) (rule assms(1))
  with Some show ?thesis
    by (simp add: update_one_upsert_def)
qed

lemma filter_upsert:
  assumes "\<And>x. p x \<Longrightarrow> p (f x)" and "p seed"
  shows "filter (\<lambda>x. \<not> p x) (update_one_upsert p f seed xs) = filter (\<lambda>x. \<not> p x) xs"
proof -
  have "p (f seed)" using assms by blast
  then show ?thesis
    by (simp add: update_one_upsert_def insert_one_def filter_set_first assms(1))
qed

lemma update_settings_frame:
  "snd (update_settings now u w) = w\<lparr>settings := settings (snd (update_settings now u w))\<rparr>"
  "filter (\<lambda>d. st_id d \<noteq> ''settings'') (settings (snd (update_settings now u w))) =
     filter (\<lambda>d. st_id d \<noteq> ''settings'') (settings w)"
proof -
  let ?f = "fold set_settings_field (settings_update_data u @ [StUpdatedAt now])"
  let ?seed = "\<lparr>st_id = ''settings'', st_sms_enabled = None,
                 st_alert_phone_number = None, st_updated_at = now\<rparr>"
  have keep: "st_id (?f x) = st_id x" for x
    unfolding fold_settings_update_data by simp
  have s: "settings (snd (update_settings now u w)) =
      update_one_upsert (\<lambda>d. st_id d = ''settings'') ?f ?seed (settings w)"
    by (simp add: update_settings_def Let_def del: fold_append split: option.splits)
  show "snd (update_settings now u w) = w\<lparr>settings := settings (snd (update_settings now u w))\<rparr>"
    by (simp add: update_settings_def Let_def del: fold_append split: option.splits)
  show "filter (\<lambda>d. st_id d \<noteq> ''settings'') (settings (snd (update_settings now u w))) =
     filter (\<lambda>d. st_id d \<noteq> ''settings'') (settings w)"
    unfolding s
    by (rule filter_upsert [where p = "\<lambda>d. st_id d = ''settings''"])
       (simp_all add: keep del: fold_append)
qed

lemma update_settings_stored:
  assumes "old = (case find_one (\<lambda>d. st_id d = ''settings'') (settings w) of
                    None \<Rightarrow> \<lparr>st_id = ''settings'', st_sms_enabled = None,
                              st_alert_phone_number = None, st_updated_at = now\<rparr>
                  | Some d \<Rightarrow> d)"
      and "d' = old\<lparr>st_sms_enabled :=
                      (case stu_sms_enabled u of None \<Rightarrow> st_sms_enabled old | Some v \<Rightarrow> Some v),
                    st_alert_phone_number :=
                      (case stu_alert_phone_number u of None \<Rightarrow> st_alert_phone_number old
                       | Some v \<Rightarrow> Some v),
                    st_updated_at := now\<rparr>"
  shows "fst (update_settings now u w) = Inr (Settings d')"
    and "find_one (\<lambda>d. st_id d = ''settings'') (settings (snd (update_settings now u w))) = Some d'"
proof -
  let ?f = "fold set_settings_field (settings_update_data u @ [StUpdatedAt now])"
  let ?seed = "\<lparr>st_id = ''settings'', st_sms_enabled = None,
                 st_alert_phone_number = None, st_updated_at = now\<rparr>"
  have keep: "st_id (?f x) = st_id x" for x
    unfolding fold_settings_update_data by simp
  have "find_one (\<lambda>d. st_id d = ''settings'')
          (update_one_upsert (\<lambda>d. st_id d = ''settings'') ?f ?seed (settings w)) = Some (?f old)"
    unfolding assms(1)
    by (rule find_one_upsert) (simp_all add: keep del: fold_append)
  moreover have "?f old = d'"
    unfolding fold_settings_update_data assms(2) by simp
  ultimately have f: "find_one (\<lambda>d. st_id d = ''settings'')
          (update_one_upsert (\<lambda>d. st_id d = ''settings'') ?f ?seed (settings w)) = Some d'"
    by simp
  then show "fst (update_settings now u w) = Inr (Settings d')"
    and "find_one (\<lambda>d. st_id d = ''settings'') (settings (snd (update_settings now u w))) = Some d'"
    by (simp_all add: update_settings_def Let_def del: fold_append)
qed


text \<open>
  C4 as stated fails for the settings endpoint: \<open>update_settings\<close> has no emptiness
  check. With every field null on an empty store it answers with the default settings
  instead of the 400 error, and it has written a settings document.
\<close>

theorem update_settings_accepts_all_null:
  "fst (update_settings 5 \<lparr>stu_sms_enabled = None, stu_alert_phone_number = None\<rparr> fresh_world) =
     Inr \<lparr>sm_id = ''settings'', sm_sms_enabled = False, sm_alert_phone_number = None,
          sm_updated_at = 5\<rparr> \<and>
   fst (update_settings 5 \<lparr>stu_sms_enabled = None, stu_alert_phone_number = None\<rparr> fresh_world) \<noteq>
     Inl (HTTPException 400 ''No update data provided'') \<and>
   settings fresh_world = [] \<and>
   settings (snd (update_settings 5 \<lparr>stu_sms_enabled = None, stu_alert_phone_number = None\<rparr>
                    fresh_world)) =
     [\<lparr>st_id = ''settings'', st_sms_enabled = None, st_alert_phone_number = None,
       st_updated_at = 5\<rparr>]"
  by (simp add: update_settings_def update_one_upsert_def insert_one_def find_one_def
      settings_update_data_def fresh_world_def Settings_def Let_def)

text \<open>
  C4 amended. The zone and the sensor update endpoints reject a payload whose fields are
  all null with the 400 error "No update data provided" and leave the whole state as it
  was. A payload with some non-null field, on an existing zone or sensor, overwrites
  exactly the supplied fields of that document and nothing else; for a sensor this needs
  a supplied battery level to fit in 64 bits, and one that does not fit ends the request
  as a server error with the state as it was. The settings endpoint never rejects: it
  upserts the settings document, overwriting the supplied fields and always
  \<open>updated_at\<close>, and touches nothing else, so an all-null payload changes
  \<open>updated_at\<close> only.
\<close>

theorem update_endpoints_partial:
  assumes "z' = z\<lparr>z_name := (case zu_name zu of None \<Rightarrow> z_name z | Some v \<Rightarrow> v),
                 z_description :=
                   (case zu_description zu of None \<Rightarrow> z_description z | Some v \<Rightarrow> Some v),
                 z_image_url :=
                   (case zu_image_url zu of None \<Rightarrow> z_image_url z | Some v \<Rightarrow> Some v)\<rparr>"
      and "s' = s\<lparr>s_name := (case su_name su of None \<Rightarrow> s_name s | Some v \<Rightarrow> v),
                 s_zone_id := (case su_zone_id su of None \<Rightarrow> s_zone_id s | Some v \<Rightarrow> v),
                 s_status := (case su_status su of None \<Rightarrow> s_status s | Some v \<Rightarrow> v),
                 s_battery_level :=
                   (case su_battery_level su of None \<Rightarrow> s_battery_level s | Some v \<Rightarrow> v)\<rparr>"
      and "old = (case find_one (\<lambda>d. st_id d = ''settings'') (settings w) of
                    None \<Rightarrow> \<lparr>st_id = ''settings'', st_sms_enabled = None,
                              st_alert_phone_number = None, st_updated_at = now\<rparr>
                  | Some d \<Rightarrow> d)"
      and "d' = old\<lparr>st_sms_enabled :=
                      (case stu_sms_enabled stu of None \<Rightarrow> st_sms_enabled old | Some v \<Rightarrow> Some v),
                    st_alert_phone_number :=
                      (case stu_alert_phone_number stu of None \<Rightarrow> st_alert_phone_number old
                       | Some v \<Rightarrow> Some v),
                    st_updated_at := now\<rparr>"
  shows "(zu_name zu = None \<and> zu_description zu = None \<and> zu_image_url zu = None \<longrightarrow>
            update_zone zid zu w = (Inl (HTTPException 400 ''No update data provided''), w)) \<and>
         (su_name su = None \<and> su_zone_id su = None \<and> su_status su = None \<and>
          su_battery_level su = None \<longrightarrow>
            update_sensor sid su w = (Inl (HTTPException 400 ''No update data provided''), w)) \<and>
         (\<not> (zu_name zu = None \<and> zu_description zu = None \<and> zu_image_url zu = None) \<and>
          find_one (\<lambda>z. z_id z = zid) (zones w) = Some z \<longrightarrow>
            fst (update_zone zid zu w) = Inr z' \<and>
            find_one (\<lambda>z. z_id z = zid) (zones (snd (update_zone zid zu w))) = Some z' \<and>
            filter (\<lambda>z. z_id z \<noteq> zid) (zones (snd (update_zone zid zu w))) =
              filter (\<lambda>z. z_id z \<noteq> zid) (zones w) \<and>
            snd (update_zone zid zu w) = w\<lparr>zones := zones (snd (update_zone zid zu w))\<rparr>) \<and>
         (\<not> (su_name su = None \<and> su_zone_id su = None \<and> su_status su = None \<and>
             su_battery_level su = None) \<and>
          (\<forall>v. su_battery_level su = Some v \<longrightarrow> - (2 ^ 63) \<le> v \<and> v < 2 ^ 63) \<and>
          find_one (\<lambda>s. s_id s = sid) (sensors w) = Some s \<longrightarrow>
            fst (update_sensor sid su w) = Inr s' \<and>
            find_one (\<lambda>s. s_id s = sid) (sensors (snd (update_sensor sid su w))) = Some s' \<and>
            filter (\<lambda>s. s_id s \<noteq> sid) (sensors (snd (update_sensor sid su w))) =
              filter (\<lambda>s. s_id s \<noteq> sid) (sensors w) \<and>
            snd (update_sensor sid su w) = w\<lparr>sensors := sensors (snd (update_sensor sid su w))\<rparr>) \<and>
         (\<forall>v. su_battery_level su = Some v \<and> \<not> (- (2 ^ 63) \<le> v \<and> v < 2 ^ 63) \<longrightarrow>
            update_sensor sid su w = (Inl (HTTPException 500 ''Internal Server Error''), w)) \<and>
         fst (update_settings now stu w) = Inr (Settings d') \<and>
         find_one (\<lambda>d. st_id d = ''settings'') (settings (snd (update_settings now stu w))) = Some d' \<and>
         filter (\<lambda>d. st_id d \<noteq> ''settings'') (settings (snd (update_settings now stu w))) =
           filter (\<lambda>d. st_id d \<noteq> ''settings'') (settings w) \<and>
         snd (update_settings now stu w) = w\<lparr>settings := settings (snd (update_settings now stu w))\<rparr> \<and>
         (stu_sms_enabled stu = None \<and> stu_alert_phone_number stu = None \<longrightarrow>
            d' = old\<lparr>st_updated_at := now\<rparr>)"
proof -
  have z': "z' = fold set_zone_field (zone_update_data zu) z"
    by (simp only: fold_zone_update_data assms(1))
  have s': "s' = fold set_sensor_field (sensor_update_data su) s"
    by (simp only: fold_sensor_update_data assms(2))
  have 1: "zu_name zu = None \<and> zu_description zu = None \<and> zu_image_url zu = None \<longrightarrow>
            update_zone zid zu w = (Inl (HTTPException 400 ''No update data provided''), w)"
    using update_zone_empty [of zu zid w] by blast
  have 2: "su_name su = None \<and> su_zone_id su = None \<and> su_status su = None \<and>
          su_battery_level su = None \<longrightarrow>
            update_sensor sid su w = (Inl (HTTPException 400 ''No update data provided''), w)"
    using update_sensor_empty [of su sid w] by blast
  have 3: "\<not> (zu_name zu = None \<and> zu_description zu = None \<and> zu_image_url zu = None) \<and>
          find_one (\<lambda>z. z_id z = zid) (zones w) = Some z \<longrightarrow>
            fst (update_zone zid zu w) = Inr z' \<and>
            find_one (\<lambda>z. z_id z = zid) (zones (snd (update_zone zid zu w))) = Some z' \<and>
            filter (\<lambda>z. z_id z \<noteq> zid) (zones (snd (update_zone zid zu w))) =
              filter (\<lambda>z. z_id z \<noteq> zid) (zones w) \<and>
            snd (update_zone zid zu w) = w\<lparr>zones := zones (snd (update_zone zid zu w))\<rparr>"
    using update_zone_partial [OF _ _ z', of zid w]
    unfolding zone_update_data_empty [symmetric] by blast
  have fits: "list_all bson_field (sensor_update_data su)"
    if "\<forall>v. su_battery_level su = Some v \<longrightarrow> - (2 ^ 63) \<le> v \<and> v < 2 ^ 63"
    using that by (simp add: bson_sensor_update_data bson_int_def split: option.splits)
  have 4: "\<not> (su_name su = None \<and> su_zone_id su = None \<and> su_status su = None \<and>
             su_battery_level su = None) \<and>
          (\<forall>v. su_battery_level su = Some v \<longrightarrow> - (2 ^ 63) \<le> v \<and> v < 2 ^ 63) \<and>
          find_one (\<lambda>s. s_id s = sid) (sensors w) = Some s \<longrightarrow>
            fst (update_sensor sid su w) = Inr s' \<and>
            find_one (\<lambda>s. s_id s = sid) (sensors (snd (update_sensor sid su w))) = Some s' \<and>
            filter (\<lambda>s. s_id s \<noteq> sid) (sensors (snd (update_sensor sid su w))) =
              filter (\<lambda>s. s_id s \<noteq> sid) (sensors w) \<and>
            snd (update_sensor sid su w) = w\<lparr>sensors := sensors (snd (update_sensor sid su w))\<rparr>"
    using update_sensor_partial [OF _ _ s', of sid w] fits
    unfolding sensor_update_data_empty [symmetric] by blast
  have 5: "\<forall>v. su_battery_level su = Some v \<and> \<not> (- (2 ^ 63) \<le> v \<and> v < 2 ^ 63) \<longrightarrow>
            update_sensor sid su w = (Inl (HTTPException 500 ''Internal Server Error''), w)"
    using update_sensor_overflow [of su _ sid w] unfolding bson_int_def by blast
  note 6 = update_settings_stored [OF assms(3) assms(4)]
  note 7 = update_settings_frame [of now stu w]
  have 8: "stu_sms_enabled stu = None \<and> stu_alert_phone_number stu = None \<longrightarrow>
            d' = old\<lparr>st_updated_at := now\<rparr>"
    by (simp add: assms(4))
  from 1 2 3 4 5 6 7 8 show ?thesis by blast
qed

theorem update_endpoints_partial_witness:
  "update_sensor ''s1''
     \<lparr>su_name = None, su_zone_id = None, su_status = None, su_battery_level = None\<rparr>
     (demo_world Armed) =
     (Inl (HTTPException 400 ''No update data provided''), demo_world Armed) \<and>
   update_zone ''z1'' \<lparr>zu_name = None, zu_description = None, zu_image_url = None\<rparr>
     (demo_world Armed) =
     (Inl (HTTPException 400 ''No update data provided''), demo_world Armed) \<and>
   find_one (\<lambda>s. s_id s = ''s1'') (sensors (demo_world Armed)) = Some demo_sensor \<and>
   fst (update_sensor ''s1''
          \<lparr>su_name = None, su_zone_id = None, su_status = None, su_battery_level = Some 80\<rparr>
          (demo_world Armed)) = Inr (demo_sensor\<lparr>s_battery_level := 80\<rparr>) \<and>
   update_sensor ''s1''
     \<lparr>su_name = None, su_zone_id = None, su_status = None, su_battery_level = Some (2 ^ 63)\<rparr>
     (demo_world Armed) =
     (Inl (HTTPException 500 ''Internal Server Error''), demo_world Armed) \<and>
   find_one (\<lambda>z. z_id z = ''z1'') (zones (demo_world Armed)) = Some demo_zone \<and>
   fst (update_zone ''z1'' \<lparr>zu_name = Some ''Lobby'', zu_description = None, zu_image_url = None\<rparr>
          (demo_world Armed)) = Inr (demo_zone\<lparr>z_name := ''Lobby''\<rparr>) \<and>
   find_one (\<lambda>d. st_id d = ''settings'')
     (settings (snd (update_settings 6 \<lparr>stu_sms_enabled = None, stu_alert_phone_number = None\<rparr>
                       (demo_world Armed)))) = Some (demo_settings\<lparr>st_updated_at := 6\<rparr>)"
proof -
  have eqs: "demo_sensor\<lparr>s_name := s_name demo_sensor, s_zone_id := s_zone_id demo_sensor,
                 s_status := s_status demo_sensor, s_battery_level := 80\<rparr> =
             demo_sensor\<lparr>s_battery_level := 80\<rparr>"
     "demo_zone\<lparr>z_name := ''Lobby'', z_description := z_description demo_zone,
                 z_image_url := z_image_url demo_zone\<rparr> = demo_zone\<lparr>z_name := ''Lobby''\<rparr>"
     "demo_settings\<lparr>st_sms_enabled := st_sms_enabled demo_settings,
                    st_alert_phone_number := st_alert_phone_number demo_settings,
                    st_updated_at := 6\<rparr> = demo_settings\<lparr>st_updated_at := 6\<rparr>"
    by simp_all
  from update_endpoints_partial [OF refl refl refl refl,
         where zu = "\<lparr>zu_name = None, zu_description = None, zu_image_url = None\<rparr>"
           and su = "\<lparr>su_name = None, su_zone_id = None, su_status = None,
                      su_battery_level = None\<rparr>"
           and zid = "''z1''" and sid = "''s1''" and w = "demo_world Armed"]
  have 1: "update_sensor ''s1''
     \<lparr>su_name = None, su_zone_id = None, su_status = None, su_battery_level = None\<rparr>
     (demo_world Armed) =
     (Inl (HTTPException 400 ''No update data provided''), demo_world Armed) \<and>
   update_zone ''z1'' \<lparr>zu_name = None, zu_description = None, zu_image_url = None\<rparr>
     (demo_world Armed) =
     (Inl (HTTPException 400 ''No update data provided''), demo_world Armed)"
    by simp
  from update_endpoints_partial [OF refl refl refl refl,
         where zu = "\<lparr>zu_name = Some ''Lobby'', zu_description = None, zu_image_url = None\<rparr>"
           and su = "\<lparr>su_name = None, su_zone_id = None, su_status = None,
                      su_battery_level = Some 80\<rparr>"
           and stu = "\<lparr>stu_sms_enabled = None, stu_alert_phone_number = None\<rparr>"
           and now = 6
           and zid = "''z1''" and sid = "''s1''" and w = "demo_world Armed"
           and z = demo_zone and s = demo_sensor]
       demo_find [of Armed] demo_zone_found [of Armed] demo_settings_found [of Armed]
  have 2: "fst (update_sensor ''s1''
          \<lparr>su_name = None, su_zone_id = None, su_status = None, su_battery_level = Some 80\<rparr>
          (demo_world Armed)) = Inr (demo_sensor\<lparr>s_battery_level := 80\<rparr>) \<and>
     fst (update_zone ''z1'' \<lparr>zu_name = Some ''Lobby'', zu_description = None, zu_image_url = None\<rparr>
          (demo_world Armed)) = Inr (demo_zone\<lparr>z_name := ''Lobby''\<rparr>) \<and>
     find_one (\<lambda>d. st_id d = ''settings'')
       (settings (snd (update_settings 6 \<lparr>stu_sms_enabled = None, stu_alert_phone_number = None\<rparr>
                       (demo_world Armed)))) = Some (demo_settings\<lparr>st_updated_at := 6\<rparr>)"
    by (simp add: eqs)
  from update_endpoints_partial [OF refl refl refl refl,
         where su = "\<lparr>su_name = None, su_zone_id = None, su_status = None,
                      su_battery_level = Some (2 ^ 63)\<rparr>"
           and sid = "''s1''" and w = "demo_world Armed"]
  have 3: "update_sensor ''s1''
     \<lparr>su_name = None, su_zone_id = None, su_status = None, su_battery_level = Some (2 ^ 63)\<rparr>
     (demo_world Armed) =
     (Inl (HTTPException 500 ''Internal Server Error''), demo_world Armed)"
    by simp
  from 1 2 3 demo_find [of Armed] demo_zone_found [of Armed] show ?thesis by simp
qed

section \<open>A store whose settings were never updated\<close>

lemma sms_untouched_not_configured: "sms_untouched w \<Longrightarrow> \<not> sms_configured cfg w"
  by (auto simp: sms_untouched_def sms_configured_def truthy_bool_def list_all_iff
      split: option.splits dest!: find_one_Some_D)

lemma sms_untouched_log_event:
  "t \<noteq> SmsSent \<Longrightarrow> sms_untouched w \<Longrightarrow> sms_untouched (snd (log_event st t m sv a b w))"
  by (simp add: sms_untouched_def log_event_fields)

lemma sms_untouched_get_system_state:
  "sms_untouched w \<Longrightarrow> sms_untouched (snd (get_system_state n w))"
  by (simp add: sms_untouched_def get_system_state_fields)

lemma sms_untouched_send_sms_alert:
  assumes "sms_untouched w"
  shows "sms_untouched (snd (send_sms_alert cfg st m w))" and "fst (send_sms_alert cfg st m w) = False"
proof -
  from send_sms_alert_unconfigured [OF sms_untouched_not_configured [OF assms], of cfg st m]
  obtain lvl line where r: "send_sms_alert cfg st m w = (False, logger_write lvl line w)"
    by blast
  show "sms_untouched (snd (send_sms_alert cfg st m w))"
    using assms by (simp add: r sms_untouched_def logger_write_fields)
  show "fst (send_sms_alert cfg st m w) = False"
    by (simp add: r)
qed

lemma sms_untouched_update_state:
  "sms_untouched w \<Longrightarrow> sms_untouched (snd (update_state st_now upd_now ev new_mode w))"
  by (cases new_mode)
     (simp_all add: update_state_unfold Let_def sms_untouched_def log_event_fields
        get_system_state_fields)

lemma sms_untouched_create_zone:
  "sms_untouched w \<Longrightarrow> sms_untouched (snd (create_zone zs ev name description image_url w))"
  by (simp add: create_zone_def Let_def sms_untouched_def log_event_fields)

lemma sms_untouched_update_zone:
  "sms_untouched w \<Longrightarrow> sms_untouched (snd (update_zone zone_id u w))"
  by (simp add: update_zone_def Let_def split_beta sms_untouched_def split: option.splits)

lemma sms_untouched_delete_zone:
  "sms_untouched w \<Longrightarrow> sms_untouched (snd (delete_zone ev zone_id w))"
  by (simp add: delete_zone_def Let_def sms_untouched_def log_event_fields split: option.splits)

lemma sms_untouched_create_sensor:
  "sms_untouched w \<Longrightarrow>
     sms_untouched (snd (create_sensor ss ev name ty zone_id battery_level w))"
  by (simp add: create_sensor_def Let_def sms_untouched_def log_event_fields split: option.splits)

lemma sms_untouched_update_sensor:
  "sms_untouched w \<Longrightarrow> sms_untouched (snd (update_sensor sensor_id u w))"
  by (simp add: update_sensor_def Let_def split_beta sms_untouched_def split: option.splits)

lemma sms_untouched_delete_sensor:
  "sms_untouched w \<Longrightarrow> sms_untouched (snd (delete_sensor ev sensor_id w))"
  by (simp add: delete_sensor_def Let_def sms_untouched_def log_event_fields split: option.splits)

lemma sms_untouched_trigger_sensor:
  assumes "sms_untouched w"
  shows "sms_untouched (snd (trigger_sensor cfg now st_now ev sms sensor_id w))"
proof (cases "find_one (\<lambda>s. s_id s = sensor_id) (sensors w)")
  case None
  with assms show ?thesis by (simp add: trigger_sensor_def)
next
  case (Some sensor)
  define w2 where "w2 = snd (get_system_state st_now
                (w\<lparr>sensors := set_first (\<lambda>s. s_id s = sensor_id)
                     (\<lambda>s. s\<lparr>s_status := Triggered, s_last_triggered := Some now\<rparr>) (sensors w)\<rparr>))"
  have "sms_untouched (w\<lparr>sensors := set_first (\<lambda>s. s_id s = sensor_id)
                     (\<lambda>s. s\<lparr>s_status := Triggered, s_last_triggered := Some now\<rparr>) (sensors w)\<rparr>)"
    using assms by (simp add: sms_untouched_def)
  then have w2: "sms_untouched w2"
    unfolding w2_def by (rule sms_untouched_get_system_state)
  show ?thesis
    by (cases "ss_mode (fst (get_system_state st_now w))")
       (simp_all add: trigger_sensor_found [OF Some] Let_def w2_def [symmetric] w2
          sms_untouched_log_event sms_untouched_send_sms_alert)
qed

lemma sms_untouched_reset_sensor:
  "sms_untouched w \<Longrightarrow> sms_untouched (snd (reset_sensor sensor_id w))"
  by (simp add: reset_sensor_def Let_def split_beta sms_untouched_def)

lemma sms_untouched_clear_events:
  "sms_untouched w \<Longrightarrow> sms_untouched (snd (clear_events ev w))"
  by (simp add: clear_events_def Let_def sms_untouched_def log_event_fields delete_many_def)

lemma sms_untouched_get_settings:
  "sms_untouched w \<Longrightarrow> sms_untouched (snd (get_settings now w))"
  by (simp add: get_settings_def Let_def sms_untouched_def insert_one_def split: option.splits)

lemma sms_untouched_step:
  "sms_untouched w \<Longrightarrow> \<not> is_update_settings r \<Longrightarrow> sms_untouched (step cfg r w)"
  by (cases r)
     (simp_all add: get_state_def split_beta Let_def sms_untouched_get_system_state
        sms_untouched_update_state sms_untouched_create_zone sms_untouched_update_zone
        sms_untouched_delete_zone sms_untouched_create_sensor sms_untouched_update_sensor
        sms_untouched_delete_sensor sms_untouched_trigger_sensor sms_untouched_reset_sensor
        sms_untouched_clear_events sms_untouched_get_settings)

lemma sms_untouched_run:
  "sms_untouched w \<Longrightarrow> list_all (\<lambda>r. \<not> is_update_settings r) rs \<Longrightarrow> sms_untouched (run cfg rs w)"
  by (induction rs arbitrary: w) (simp_all add: sms_untouched_step)

lemma sms_untouched_fresh: "sms_untouched fresh_world"
  by (simp add: sms_untouched_def fresh_world_def)

lemma get_settings_untouched:
  assumes "sms_untouched w"
  shows "\<exists>d. fst (get_settings now w) = Inr d \<and> sm_sms_enabled d = False \<and>
            sm_alert_phone_number d = None"
proof (cases "find_one (\<lambda>d. st_id d = ''settings'') (settings w)")
  case None
  then show ?thesis by (simp add: get_settings_def Settings_def Let_def)
next
  case (Some d)
  from find_one_Some_D [OF Some] assms
  have "st_sms_enabled d = Some False \<and> st_alert_phone_number d = None"
    by (auto simp: sms_untouched_def list_all_iff)
  with Some show ?thesis by (simp add: get_settings_def Settings_def)
qed

text \<open>
  C10. On a store with no settings document, \<open>get_settings\<close> creates and returns the
  default: SMS disabled, no phone number. After any sequence of requests from the empty
  store that contains no \<open>update_settings\<close>, the settings read as SMS disabled with no
  phone number, \<open>send_sms_alert\<close> returns false, calls the provider not at all and
  appends no event; no provider call was ever made and the log holds no sms_sent event.
\<close>

theorem fresh_system_sends_no_sms:
  assumes "list_all (\<lambda>r. \<not> is_update_settings r) rs"
      and "w = run cfg rs fresh_world"
  shows "get_settings now fresh_world =
           (Inr \<lparr>sm_id = ''settings'', sm_sms_enabled = False, sm_alert_phone_number = None,
                 sm_updated_at = now\<rparr>,
            fresh_world\<lparr>settings := [\<lparr>st_id = ''settings'', st_sms_enabled = Some False,
                                       st_alert_phone_number = None, st_updated_at = now\<rparr>]\<rparr>) \<and>
         (\<exists>d. fst (get_settings now w) = Inr d \<and> sm_sms_enabled d = False \<and>
              sm_alert_phone_number d = None) \<and>
         fst (send_sms_alert cfg stamp message w) = False \<and>
         twilio_calls (snd (send_sms_alert cfg stamp message w)) = [] \<and>
         events (snd (send_sms_alert cfg stamp message w)) = events w \<and>
         twilio_calls w = [] \<and>
         count_type SmsSent (events w) = 0"
proof -
  have u: "sms_untouched w"
    unfolding assms(2) by (rule sms_untouched_run [OF sms_untouched_fresh assms(1)])
  have 1: "get_settings now fresh_world =
           (Inr \<lparr>sm_id = ''settings'', sm_sms_enabled = False, sm_alert_phone_number = None,
                 sm_updated_at = now\<rparr>,
            fresh_world\<lparr>settings := [\<lparr>st_id = ''settings'', st_sms_enabled = Some False,
                                       st_alert_phone_number = None, st_updated_at = now\<rparr>]\<rparr>)"
    by (simp add: get_settings_def fresh_world_def find_one_def insert_one_def Settings_def Let_def)
  note 2 = get_settings_untouched [OF u, of now]
  from send_sms_alert_unconfigured [OF sms_untouched_not_configured [OF u], of cfg stamp message]
  obtain lvl line where r: "send_sms_alert cfg stamp message w = (False, logger_write lvl line w)"
    by blast
  have calls: "twilio_calls w = []" using u by (simp add: sms_untouched_def)
  have "list_all (\<lambda>e. e_type e \<noteq> SmsSent) (events w)" using u by (simp add: sms_untouched_def)
  then have cnt: "count_type SmsSent (events w) = 0"
    by (simp add: count_type_def list_all_iff)
  from 1 2 calls cnt show ?thesis
    by (simp add: r logger_write_fields)
qed

theorem fresh_system_sends_no_sms_witness:
  "list_all (\<lambda>r. \<not> is_update_settings r)
     [CreateZone (''z1'', 1) (''e0'', 1) ''Hall'' (Some []) (Some []),
      CreateSensor (''s1'', 2) (''e1'', 2) ''Front'' Door ''z1'' (Some 100),
      UpdateState 3 3 (''e2'', 3) Armed,
      TriggerSensor 5 7 (''e3'', 8) (''e4'', 9) ''s1''] \<and>
   twilio_calls (run (demo_env Sent)
     [CreateZone (''z1'', 1) (''e0'', 1) ''Hall'' (Some []) (Some []),
      CreateSensor (''s1'', 2) (''e1'', 2) ''Front'' Door ''z1'' (Some 100),
      UpdateState 3 3 (''e2'', 3) Armed,
      TriggerSensor 5 7 (''e3'', 8) (''e4'', 9) ''s1''] fresh_world) = [] \<and>
   fst (send_sms_alert (demo_env Sent) (''e5'', 10) ''hi'' (run (demo_env Sent)
     [CreateZone (''z1'', 1) (''e0'', 1) ''Hall'' (Some []) (Some []),
      CreateSensor (''s1'', 2) (''e1'', 2) ''Front'' Door ''z1'' (Some 100),
      UpdateState 3 3 (''e2'', 3) Armed,
      TriggerSensor 5 7 (''e3'', 8) (''e4'', 9) ''s1''] fresh_world)) = False"
proof -
  have h: "list_all (\<lambda>r. \<not> is_update_settings r)
     [CreateZone (''z1'', 1) (''e0'', 1) ''Hall'' (Some []) (Some []),
      CreateSensor (''s1'', 2) (''e1'', 2) ''Front'' Door ''z1'' (Some 100),
      UpdateState 3 3 (''e2'', 3) Armed,
      TriggerSensor 5 7 (''e3'', 8) (''e4'', 9) ''s1'']"
    by simp
  from fresh_system_sends_no_sms [OF h refl, where cfg = "demo_env Sent" and now = 0
         and stamp = "(''e5'', 10)" and message = "''hi''"] h
  show ?thesis by simp
qed

end
